theory Spec2Isabelle
  imports Main
begin

section \<open>JavaScript values, errors and the outside world\<close>

text \<open>
  Strings are lists of \<^typ>\<open>char\<close>; a \<^typ>\<open>char\<close> is an 8-bit code, so the
  same type serves for the contents of a Node \<open>Buffer\<close> and of a CryptoJS \<open>WordArray\<close>
  (one \<^typ>\<open>char\<close> per byte).
\<close>

type_synonym bytes = string

text \<open>
  A thrown value.  The program only ever throws instances of \<open>Error\<close> and of its
  subclasses; the argument is the \<open>message\<close> property.  \<open>OutsideModel\<close> is not a
  JavaScript error: it marks the two places where the embedding stops because the run-time
  behaviour depends on parts of the platform that are not modelled (see \<open>asString\<close> and
  \<open>literalPattern\<close> below).
\<close>

datatype js_error =
    Error string
  | TypeError string
  | RangeError string
  | SyntaxError string
  | OutsideModel string

fun message :: "js_error \<Rightarrow> string" where
  "message (Error m) = m"
| "message (TypeError m) = m"
| "message (RangeError m) = m"
| "message (SyntaxError m) = m"
| "message (OutsideModel m) = m"

text \<open>The result of \<open>JSON.parse\<close>.\<close>

datatype json =
    JNull
  | JBool bool
  | JNumber int
  | JString string
  | JArray "json list"
  | JObject "(string \<times> json) list"

text \<open>
  \<open>!v\<close> is \<open>\<not> truthy v\<close>; a property that is absent reads as \<open>undefined\<close>, here \<open>None\<close>.
  A parsed object lists each of its properties once.  Numbers are kept as integers: the
  program only ever tests a parsed number for being zero.
\<close>

fun truthy :: "json \<Rightarrow> bool" where
  "truthy JNull = False"
| "truthy (JBool b) = b"
| "truthy (JNumber n) = (n \<noteq> 0)"
| "truthy (JString s) = (s \<noteq> [])"
| "truthy (JArray xs) = True"
| "truthy (JObject kvs) = True"

fun getProp :: "json \<Rightarrow> string \<Rightarrow> json option" where
  "getProp (JObject kvs) k = map_of kvs k"
| "getProp j k = None"

definition truthyProp :: "json \<Rightarrow> string \<Rightarrow> bool" where
  "truthyProp j k = (case getProp j k of None \<Rightarrow> False | Some v \<Rightarrow> truthy v)"

text \<open>\<open>models/cryptoTypes\<close>: the four-field envelope.\<close>

record EncryptionParams =
  salt :: string
  iv :: string
  cipherText :: string
  mac :: string

definition toJson :: "EncryptionParams \<Rightarrow> json" where
  "toJson p = JObject [(''salt'', JString (salt p)), (''iv'', JString (iv p)),
     (''cipherText'', JString (cipherText p)), (''mac'', JString (mac p))]"

text \<open>
  The libraries the program calls (Node's \<open>Buffer\<close> and \<open>path\<close>, \<open>argon2\<close>,
  \<open>crypto-js\<close>, \<open>JSON\<close>) are not part of the repository; they are parameters of the
  embedding.  \<open>argon2_hash\<close> stands for \<open>argon2.hash\<close> with the fixed options of
  \<open>deriveKeyWithArgon2\<close>; \<open>AES_encrypt v k i\<close> for
  \<open>CryptoJS.AES.encrypt(v, k, {iv: i, mode: CBC, padding: Pkcs7}).toString()\<close>;
  \<open>AES_decrypt c k i\<close> for
  \<open>CryptoJS.AES.decrypt({ciphertext: c}, k, {iv: i, ...}).toString(CryptoJS.enc.Utf8)\<close>;
  \<open>HmacSHA256 m k\<close> for \<open>CryptoJS.HmacSHA256(m, k).toString()\<close>;
  \<open>randomBytes_rangeMessage\<close> for the text of Node's range error.
\<close>

record lib =
  Buffer_toBase64 :: "bytes \<Rightarrow> string"
  Buffer_fromBase64 :: "string \<Rightarrow> bytes"
  argon2_hash :: "string \<Rightarrow> bytes \<Rightarrow> js_error + string"
  Base64_parse :: "string \<Rightarrow> bytes"
  Base64_stringify :: "bytes \<Rightarrow> string"
  AES_encrypt :: "string \<Rightarrow> bytes \<Rightarrow> bytes \<Rightarrow> js_error + string"
  AES_decrypt :: "bytes \<Rightarrow> bytes \<Rightarrow> bytes \<Rightarrow> js_error + string"
  HmacSHA256 :: "string \<Rightarrow> string \<Rightarrow> string"
  JSON_parse :: "string \<Rightarrow> js_error + json"
  JSON_stringify :: "json \<Rightarrow> string"
  path_relative :: "string \<Rightarrow> string"
  randomBytes_rangeMessage :: "int \<Rightarrow> string"

text \<open>\<open>config/crypto-config.json\<close> is not in the repository either: its lengths are parameters.\<close>

record cryptoConfig =
  IV_LENGTH :: int
  SALT_LENGTH :: int
  SECRET_KEY_LENGTH :: int

datatype level = LInfo | LWarn | LError

datatype lib_call =
    RandomBytes int
  | Argon2Hash string string
  | AesEncrypt string
  | AesDecrypt string
  | HmacSha256 string

text \<open>
  The world a call runs in: the file store, the secure random source (an endless supply of
  bytes and how many were drawn), the event log, and the cryptographic library calls made
  so far, in order.
\<close>

record world =
  files :: "string \<Rightarrow> string option"
  entropy :: "nat \<Rightarrow> char"
  drawn :: nat
  logged :: "(level \<times> string) list"
  calls :: "lib_call list"

type_synonym 'a io = "world \<Rightarrow> (js_error + 'a) \<times> world"

definition ret :: "'a \<Rightarrow> 'a io" where
  "ret a w = (Inr a, w)"

definition throw :: "js_error \<Rightarrow> 'a io" where
  "throw e w = (Inl e, w)"

definition bind :: "'a io \<Rightarrow> ('a \<Rightarrow> 'b io) \<Rightarrow> 'b io" where
  "bind m f w = (case m w of (Inl e, w') \<Rightarrow> (Inl e, w') | (Inr a, w') \<Rightarrow> f a w')"

definition tryCatch :: "'a io \<Rightarrow> (js_error \<Rightarrow> 'a io) \<Rightarrow> 'a io" where
  "tryCatch m h w = (case m w of (Inl e, w') \<Rightarrow> h e w' | (Inr a, w') \<Rightarrow> (Inr a, w'))"

definition called :: "lib_call \<Rightarrow> (js_error + 'a) \<Rightarrow> 'a io" where
  "called c r w = (r, w\<lparr>calls := calls w @ [c]\<rparr>)"

definition logger :: "level \<Rightarrow> string \<Rightarrow> unit io" where
  "logger lv msg w = (Inr (), w\<lparr>logged := logged w @ [(lv, msg)]\<rparr>)"

section \<open>String operations of the platform\<close>

definition digitChar :: "nat \<Rightarrow> char" where
  "digitChar d = (if d = 0 then CHR ''0'' else if d = 1 then CHR ''1'' else if d = 2 then CHR ''2''
     else if d = 3 then CHR ''3'' else if d = 4 then CHR ''4'' else if d = 5 then CHR ''5''
     else if d = 6 then CHR ''6'' else if d = 7 then CHR ''7'' else if d = 8 then CHR ''8''
     else CHR ''9'')"

fun natToString :: "nat \<Rightarrow> string" where
  "natToString n = (if n < 10 then [digitChar n] else natToString (n div 10) @ [digitChar (n mod 10)])"

definition intToString :: "int \<Rightarrow> string" where
  "intToString i = (if i < 0 then CHR ''-'' # natToString (nat (- i)) else natToString (nat i))"

text \<open>
  \<open>String.prototype.trim\<close> strips white space and line terminators.  Of those, tab, line
  feed, vertical tab, form feed, carriage return, space and no-break space have 8-bit codes.
\<close>

definition isWhiteSpace :: "char \<Rightarrow> bool" where
  "isWhiteSpace c = (c \<in> {CHR 0x09, CHR 0x0A, CHR 0x0B, CHR 0x0C, CHR 0x0D, CHR 0x20, CHR 0xA0})"

definition trim :: "string \<Rightarrow> string" where
  "trim s = rev (dropWhile isWhiteSpace (rev (dropWhile isWhiteSpace s)))"

definition includesChar :: "string \<Rightarrow> char \<Rightarrow> bool" where
  "includesChar s c = (c \<in> set s)"

text \<open>\<open>s.split(c)\<close> for a one-character separator: every occurrence of \<open>c\<close> ends a part.\<close>

fun split :: "char \<Rightarrow> string \<Rightarrow> string list" where
  "split c [] = [[]]"
| "split c (x # xs) =
     (if x = c then [] # split c xs
      else (case split c xs of [] \<Rightarrow> [[x]] | p # ps \<Rightarrow> (x # p) # ps))"

fun join :: "string \<Rightarrow> string list \<Rightarrow> string" where
  "join sep [] = []"
| "join sep [x] = x"
| "join sep (x # y # ys) = x @ sep @ join sep (y # ys)"

section \<open>\<open>helpers/errorHandler.ts\<close>\<close>

definition formatErrorMessage :: "js_error \<Rightarrow> string \<Rightarrow> string" where
  "formatErrorMessage e messagePrefix = messagePrefix @ ''Error: '' @ message e"

definition logMessage :: "string \<Rightarrow> string \<Rightarrow> unit io" where
  "logMessage methodName msg = logger LError (''[Method: '' @ methodName @ ''] '' @ msg)"

definition logError :: "js_error \<Rightarrow> string \<Rightarrow> string \<Rightarrow> unit io" where
  "logError e methodName customMessage =
     logMessage methodName
       (formatErrorMessage e (if customMessage \<noteq> [] then customMessage @ '': '' else []))"

definition logThrowError :: "string \<Rightarrow> 'a io" where
  "logThrowError errorMessage = bind (logger LError errorMessage) (\<lambda>_. throw (Error errorMessage))"

text \<open>The recurring \<open>try { ... } catch (error) { logError(error, m, c); throw error; }\<close>.\<close>

definition logged_rethrow :: "string \<Rightarrow> string \<Rightarrow> 'a io \<Rightarrow> 'a io" where
  "logged_rethrow methodName customMessage body =
     tryCatch body (\<lambda>e. bind (logError e methodName customMessage) (\<lambda>_. throw e))"

section \<open>\<open>crypto/cryptoUtil.ts\<close>\<close>

text \<open>
  \<open>crypto.randomBytes(size)\<close>: a \<open>RangeError\<close> unless \<open>0 \<le> size \<le> 2\<^sup>3\<^sup>1 - 1\<close>, otherwise the
  next \<open>size\<close> bytes of the random source.  Lengths are integers: the configuration
  gives whole numbers of bytes.
\<close>

definition randomBytes :: "lib \<Rightarrow> int \<Rightarrow> bytes io" where
  "randomBytes L n w =
     (if n < 0 \<or> 2147483647 < n
      then called (RandomBytes n) (Inl (RangeError (randomBytes_rangeMessage L n))) w
      else called (RandomBytes n) (Inr (map (entropy w) [drawn w ..< drawn w + nat n]))
             (w\<lparr>drawn := drawn w + nat n\<rparr>))"

definition generateIvAsBase64 :: "lib \<Rightarrow> int \<Rightarrow> string io" where
  "generateIvAsBase64 L len =
     (if len \<le> 0 then throw (Error ''IV length must be greater than zero.'')
      else logged_rethrow ''generateIv'' (''Failed to generate IV of length '' @ intToString len)
             (bind (randomBytes L len) (\<lambda>b. ret (Buffer_toBase64 L b))))"

definition generateSalt :: "lib \<Rightarrow> int \<Rightarrow> string io" where
  "generateSalt L len =
     (if len \<le> 0 then throw (Error ''Salt length must be greater than zero.'')
      else logged_rethrow ''generateSalt'' (''Failed to generate salt of length '' @ intToString len)
             (bind (randomBytes L len) (\<lambda>b. ret (Buffer_toBase64 L b))))"

definition generateSecretKey :: "lib \<Rightarrow> int \<Rightarrow> string io" where
  "generateSecretKey L len =
     logged_rethrow ''generateKey'' ''Failed to generate key''
       (bind (randomBytes L len) (\<lambda>b. ret (Buffer_toBase64 L b)))"

definition deriveKeyWithArgon2 :: "lib \<Rightarrow> string \<Rightarrow> string \<Rightarrow> bytes io" where
  "deriveKeyWithArgon2 L secretKey salt' =
     logged_rethrow ''deriveKeyWithArgon2'' ''Failed to derive key with Argon2.''
       (bind (called (Argon2Hash secretKey salt') (argon2_hash L secretKey (Buffer_fromBase64 L salt')))
          (\<lambda>derivedKey. ret (Base64_parse L derivedKey)))"

definition encryptData :: "lib \<Rightarrow> string \<Rightarrow> bytes \<Rightarrow> string \<Rightarrow> string io" where
  "encryptData L val key iv' =
     logged_rethrow ''encryptData'' ''Failed to encrypt text''
       (called (AesEncrypt val) (AES_encrypt L val key (Base64_parse L iv')))"

definition decryptData :: "lib \<Rightarrow> bytes \<Rightarrow> bytes \<Rightarrow> bytes \<Rightarrow> string io" where
  "decryptData L decodedCipherText key decodedIv =
     logged_rethrow ''decryptData'' ''Failed to decrypt text''
       (called (AesDecrypt decodedCipherText) (AES_decrypt L decodedCipherText key decodedIv))"

text \<open>Destructuring \<open>null\<close> throws a \<open>TypeError\<close>; any other value just lacks the properties.\<close>

definition validateParsedData :: "json \<Rightarrow> unit io" where
  "validateParsedData parsedData =
     logged_rethrow ''validateParsedData'' ''Failed to validate parsed data.''
       (if parsedData = JNull
        then throw (TypeError ''Cannot destructure property 'salt' of 'parsedData' as it is null.'')
        else if \<not> truthyProp parsedData ''salt'' \<or> \<not> truthyProp parsedData ''iv''
                \<or> \<not> truthyProp parsedData ''cipherText'' \<or> \<not> truthyProp parsedData ''mac''
        then logThrowError ''Missing required properties in parsed data.''
        else ret ())"

definition parseEncryptedData :: "lib \<Rightarrow> string \<Rightarrow> json io" where
  "parseEncryptedData L encryptedData =
     logged_rethrow ''parseEncryptedData'' ''Failed to parse encrypted data''
       (bind (if encryptedData = [] then logThrowError ''Encrypted data is required.'' else ret ())
          (\<lambda>_. bind (\<lambda>w. (JSON_parse L encryptedData, w))
            (\<lambda>parsedData. bind (validateParsedData parsedData) (\<lambda>_. ret parsedData))))"

definition generateMac :: "lib \<Rightarrow> string \<Rightarrow> string \<Rightarrow> string \<Rightarrow> bytes \<Rightarrow> string io" where
  "generateMac L salt' iv' cipherText' key =
     logged_rethrow ''generateMac'' ''Failed to generate MAC.''
       (called (HmacSha256 (salt' @ '':'' @ iv' @ '':'' @ cipherText'))
          (Inr (HmacSHA256 L (salt' @ '':'' @ iv' @ '':'' @ cipherText') (Base64_stringify L key))))"

definition verifyMac :: "string \<Rightarrow> string \<Rightarrow> unit io" where
  "verifyMac computedMac mac' =
     logged_rethrow ''verifyMac'' ''Failed to verify MAC''
       (if computedMac \<noteq> mac'
        then logThrowError ''MAC verification failed. The data may have been tampered with.''
        else ret ())"

section \<open>\<open>crypto/cryptoService.ts\<close>\<close>

definition encrypt :: "lib \<Rightarrow> cryptoConfig \<Rightarrow> string \<Rightarrow> string \<Rightarrow> EncryptionParams io" where
  "encrypt L cfg val secretKey =
     logged_rethrow ''encrypt'' ''Failed to encrypt with Argon2.''
       (bind (generateSalt L (SALT_LENGTH cfg)) (\<lambda>salt'.
        bind (generateIvAsBase64 L (IV_LENGTH cfg)) (\<lambda>iv'.
        bind (deriveKeyWithArgon2 L secretKey salt') (\<lambda>key.
        bind (encryptData L val key iv') (\<lambda>cipherText'.
        bind (generateMac L salt' iv' cipherText' key) (\<lambda>mac'.
        ret \<lparr>salt = salt', iv = iv', cipherText = cipherText', mac = mac'\<rparr>))))))"

text \<open>
  \<open>parsedData\<close> is used at the type \<open>EncryptionParams\<close>, whose fields are strings.  A parsed
  value with a truthy field that is not a string passes \<open>validateParsedData\<close> and then
  meets \<open>Buffer.from\<close>, template strings and \<open>CryptoJS\<close> with a non-string argument; that
  behaviour is not modelled, and the embedding stops there.
\<close>

definition asString :: "json option \<Rightarrow> string io" where
  "asString v = (case v of Some (JString s) \<Rightarrow> ret s
                 | _ \<Rightarrow> throw (OutsideModel ''field of parsed data is not a string''))"

definition asEncryptionParams :: "json \<Rightarrow> EncryptionParams io" where
  "asEncryptionParams parsedData =
     bind (asString (getProp parsedData ''salt'')) (\<lambda>salt'.
     bind (asString (getProp parsedData ''iv'')) (\<lambda>iv'.
     bind (asString (getProp parsedData ''cipherText'')) (\<lambda>cipherText'.
     bind (asString (getProp parsedData ''mac'')) (\<lambda>mac'.
     ret \<lparr>salt = salt', iv = iv', cipherText = cipherText', mac = mac'\<rparr>))))"

definition decrypt :: "lib \<Rightarrow> string \<Rightarrow> string \<Rightarrow> string io" where
  "decrypt L encryptedData secretKey =
     bind (parseEncryptedData L encryptedData) (\<lambda>parsedData.
     bind (asEncryptionParams parsedData) (\<lambda>p.
     logged_rethrow ''decrypt'' ''Failed to decrypt with Argon2.''
       (bind (deriveKeyWithArgon2 L secretKey (salt p)) (\<lambda>key.
        bind (generateMac L (salt p) (iv p) (cipherText p) key) (\<lambda>computedMac.
        bind (verifyMac computedMac (mac p)) (\<lambda>_.
        bind (decryptData L (Base64_parse L (cipherText p)) key (Base64_parse L (iv p))) (\<lambda>decrypted.
        bind (if decrypted = [] then logThrowError ''Decryption failed. The result is empty or malformed.''
              else ret ()) (\<lambda>_.
        ret decrypted))))))))"

section \<open>The file store and \<open>helpers/utilityHelper.ts\<close>\<close>

text \<open>
  \<open>fs.readFileSync\<close> throws when there is no file at the path; \<open>fs.writeFileSync\<close> creates
  or overwrites the file.
\<close>

definition readFileSync :: "string \<Rightarrow> string io" where
  "readFileSync path w =
     (case files w path of
        None \<Rightarrow> (Inl (Error (''ENOENT: no such file or directory, open '' @ path)), w)
      | Some content \<Rightarrow> (Inr content, w))"

definition writeFileSync :: "string \<Rightarrow> string \<Rightarrow> unit io" where
  "writeFileSync path content w = (Inr (), w\<lparr>files := (files w)(path \<mapsto> content)\<rparr>)"

definition writeFile :: "string \<Rightarrow> string \<Rightarrow> string \<Rightarrow> unit io" where
  "writeFile path content keyName =
     (if content = []
      then bind (logger LWarn (''No content provided for file: '' @ keyName))
             (\<lambda>_. throw (Error (''No content provided for file: '' @ keyName)))
      else logged_rethrow ''saveFile'' []
             (bind (writeFileSync path content)
                (\<lambda>_. logger LInfo (''Successfully saved file: '' @ keyName))))"

section \<open>\<open>EnvFilesHandler\<close>: the key store of the base environment file\<close>

record EnvFilesHandler =
  envDirPath :: string
  envFilePath :: string
  secretKey :: string
  baseEnvFilePath :: string

definition writeKeyToBaseEnvFile :: "EnvFilesHandler \<Rightarrow> string \<Rightarrow> string \<Rightarrow> unit io" where
  "writeKeyToBaseEnvFile h content keyName =
     logged_rethrow ''writeEnvFile'' (''Failed to write '' @ keyName @ '' to .env file'')
       (bind (writeFile (baseEnvFilePath h) content keyName)
          (\<lambda>_. logger LInfo (keyName @ '' written to .env file'')))"

definition readBaseEnvFile :: "EnvFilesHandler \<Rightarrow> string io" where
  "readBaseEnvFile h =
     logged_rethrow ''readEnvFile'' ''Failed to read .env file'' (readFileSync (baseEnvFilePath h))"

text \<open>
  The two regular expressions are built from the key name: \<open>^keyName=(.*)$\<close> and
  \<open>^keyName=.*\<close>, both with the flag \<open>m\<close>.  The embedding covers key names that the
  regular-expression syntax reads literally, that is, without any of the characters
  \<open>\ ^ $ . * + ? ( ) [ ] { } |\<close>; for any other key name it stops.  With the flag \<open>m\<close>,
  \<open>^\<close> matches at the start of the input and after a line terminator, \<open>.\<close> matches any
  character but a line terminator, and \<open>$\<close> matches at the end and before a line
  terminator; line feed and carriage return are the line terminators with 8-bit codes.
\<close>

definition isSyntaxCharacter :: "char \<Rightarrow> bool" where
  "isSyntaxCharacter c = (c \<in> {CHR 0x5C, CHR ''^'', CHR ''$'', CHR ''.'', CHR ''*'', CHR ''+'', CHR ''?'',
     CHR ''('', CHR '')'', CHR ''['', CHR '']'', CHR ''{'', CHR ''}'', CHR ''|''})"

definition literalPattern :: "string \<Rightarrow> bool" where
  "literalPattern keyName = (\<not> list_ex isSyntaxCharacter keyName)"

definition isLineTerminator :: "char \<Rightarrow> bool" where
  "isLineTerminator c = (c = CHR 0x0A \<or> c = CHR 0x0D)"

text \<open>
  \<open>findLine pat atLineStart before rest\<close> is the leftmost match of \<open>^pat\<close>: the input
  before the match and the input from the match on.
\<close>

fun findLine :: "string \<Rightarrow> bool \<Rightarrow> string \<Rightarrow> string \<Rightarrow> (string \<times> string) option" where
  "findLine pat atLineStart before [] = (if atLineStart \<and> pat = [] then Some (before, []) else None)"
| "findLine pat atLineStart before (c # cs) =
     (if atLineStart \<and> take (length pat) (c # cs) = pat then Some (before, c # cs)
      else findLine pat (isLineTerminator c) (before @ [c]) cs)"

text \<open>
  The replacement patterns of \<open>String.prototype.replace\<close> for a regular expression without
  capture groups: \<open>$$\<close>, \<open>$&\<close>, \<open>$`\<close> and \<open>$'\<close> are substituted, any other \<open>$\<close> stands for
  itself.
\<close>

fun getSubstitution :: "string \<Rightarrow> string \<Rightarrow> string \<Rightarrow> string \<Rightarrow> string" where
  "getSubstitution before matched after [] = []"
| "getSubstitution before matched after [c] = [c]"
| "getSubstitution before matched after (c # d # r) =
     (if c = CHR ''$'' \<and> d = CHR ''$'' then CHR ''$'' # getSubstitution before matched after r
      else if c = CHR ''$'' \<and> d = CHR ''&'' then matched @ getSubstitution before matched after r
      else if c = CHR ''$'' \<and> d = CHR 0x60 then before @ getSubstitution before matched after r
      else if c = CHR ''$'' \<and> d = CHR 0x27 then after @ getSubstitution before matched after r
      else c # getSubstitution before matched after (d # r))"

definition getKeyValue :: "EnvFilesHandler \<Rightarrow> string \<Rightarrow> string option io" where
  "getKeyValue h keyName =
     logged_rethrow ''getKeyValue'' (''Failed to read '' @ keyName @ '' from .env file'')
       (bind (readBaseEnvFile h) (\<lambda>envConfig.
          if \<not> literalPattern keyName then throw (OutsideModel ''key name is not a literal pattern'')
          else ret (case findLine (keyName @ ''='') True [] envConfig of
                      None \<Rightarrow> None
                    | Some (before, rest) \<Rightarrow>
                        Some (takeWhile (\<lambda>c. \<not> isLineTerminator c) (drop (length (keyName @ ''='')) rest)))))"

definition storeBaseEnvKey :: "EnvFilesHandler \<Rightarrow> string \<Rightarrow> string \<Rightarrow> unit io" where
  "storeBaseEnvKey h keyName keyValue =
     logged_rethrow ''storeKeyInEnv'' (''Failed to store '' @ keyName @ '' in .env file'')
       (bind (readBaseEnvFile h) (\<lambda>envConfig.
          if \<not> literalPattern keyName then throw (OutsideModel ''key name is not a literal pattern'')
          else writeKeyToBaseEnvFile h
                 (case findLine (keyName @ ''='') True [] envConfig of
                    Some (before, rest) \<Rightarrow>
                      (let matched = keyName @ ''='' @
                             takeWhile (\<lambda>c. \<not> isLineTerminator c) (drop (length (keyName @ ''='')) rest);
                           after = dropWhile (\<lambda>c. \<not> isLineTerminator c) (drop (length (keyName @ ''='')) rest)
                       in before @ getSubstitution before matched after (keyName @ ''='' @ keyValue) @ after)
                  | None \<Rightarrow> envConfig @ keyName @ ''='' @ keyValue @ [CHR 0x0A])
                 keyName))"

section \<open>\<open>EncryptionHandler\<close>: the file transform\<close>

definition handleInvalidFormatError :: "nat \<Rightarrow> string \<Rightarrow> string" where
  "handleInvalidFormatError index line =
     ''Line '' @ natToString (index + 1) @ '' doesn't contain any variables or has invalid format: '' @ line"

text \<open>
  The loop of \<open>encryptLines\<close>, from \<open>index\<close> on: \<open>lines\<close> are the lines not yet visited,
  \<open>encryptedLines\<close> and \<open>errors\<close> the two arrays as built so far.  The destructuring
  \<open>[key, value] = trimmedLine.split("=")\<close> takes the first two parts of the split.
\<close>

fun encryptLoop :: "lib \<Rightarrow> cryptoConfig \<Rightarrow> string \<Rightarrow> string list \<Rightarrow> nat \<Rightarrow> string list \<Rightarrow> string list
    \<Rightarrow> world \<Rightarrow> (js_error + string list \<times> string list) \<times> world" where
  "encryptLoop L cfg sk [] index encryptedLines errors w = (Inr (encryptedLines, errors), w)"
| "encryptLoop L cfg sk (line # lines) index encryptedLines errors w =
     (let trimmedLine = trim line in
      if trimmedLine = [] then encryptLoop L cfg sk lines (index + 1) (encryptedLines @ [[]]) errors w
      else if \<not> includesChar trimmedLine CHR ''='' then
        (let errorMessage = handleInvalidFormatError index line in
         encryptLoop L cfg sk lines (index + 1) encryptedLines (errors @ [errorMessage])
           (snd (logger LError errorMessage w)))
      else
        (case split CHR ''='' trimmedLine of
           key # val # others \<Rightarrow>
             if val \<noteq> [] then
               (case encrypt L cfg (trim val) sk w of
                  (Inl e, w') \<Rightarrow> (Inl e, w')
                | (Inr encryptionResult, w') \<Rightarrow>
                    encryptLoop L cfg sk lines (index + 1)
                      (encryptedLines @ [key @ ''='' @ JSON_stringify L (toJson encryptionResult)]) errors w')
             else encryptLoop L cfg sk lines (index + 1) (encryptedLines @ [line]) errors w
         | _ \<Rightarrow> encryptLoop L cfg sk lines (index + 1) (encryptedLines @ [line]) errors w))"

text \<open>The argument is typed as a list of strings, so the \<open>Array.isArray\<close> guard cannot fire.\<close>

definition encryptLines :: "lib \<Rightarrow> cryptoConfig \<Rightarrow> string \<Rightarrow> string list \<Rightarrow> string list io" where
  "encryptLines L cfg sk lines =
     logged_rethrow ''encryptLines'' ''Failed to encrypt lines''
       (bind (if list_all (\<lambda>line. trim line = []) lines
              then logThrowError ''File is completely empty or contains only whitespace.''
              else ret ()) (\<lambda>_.
        bind (encryptLoop L cfg sk lines 0 [] []) (\<lambda>(encryptedLines, errors).
        bind (if errors \<noteq> []
              then logError (Error (join [CHR 0x0A] errors)) ''encryptLines'' ''Failed to encrypt some lines''
              else ret ()) (\<lambda>_.
        ret encryptedLines))))"

definition readEnvFileAsLines :: "EnvFilesHandler \<Rightarrow> string list io" where
  "readEnvFileAsLines h =
     logged_rethrow ''readEnvFile'' ''Failed to read environment file''
       (bind (readFileSync (envFilePath h)) (\<lambda>content. ret (split (CHR 0x0A) content)))"

definition writeEnvFileLines :: "EnvFilesHandler \<Rightarrow> string list \<Rightarrow> unit io" where
  "writeEnvFileLines h lines =
     logged_rethrow ''writeEnvFile'' ''Failed to write encrypted lines to environment file''
       (writeFile (envFilePath h) (join [CHR 0x0A] lines) ''utf8'')"

definition logEncryptionSuccess :: "lib \<Rightarrow> EnvFilesHandler \<Rightarrow> nat \<Rightarrow> nat \<Rightarrow> unit io" where
  "logEncryptionSuccess L h originalCount encryptedCount =
     logged_rethrow ''logEncryptionSuccess'' ''Failed to log encryption success''
       (logger LInfo (''Encryption complete. Successfully encrypted '' @ natToString encryptedCount
          @ '' variable(s) in the '' @ path_relative L (envFilePath h) @ '' file.''))"

definition encryptEnvVariables :: "lib \<Rightarrow> cryptoConfig \<Rightarrow> EnvFilesHandler \<Rightarrow> unit io" where
  "encryptEnvVariables L cfg h =
     logged_rethrow ''encryptEnvParameters'' ''Failed to encrypt environment parameters''
       (bind (readEnvFileAsLines h) (\<lambda>envFileContent.
        bind (encryptLines L cfg (secretKey h) envFileContent) (\<lambda>encryptedLines.
        bind (writeEnvFileLines h encryptedLines) (\<lambda>_.
        logEncryptionSuccess L h (length envFileContent) (length encryptedLines)))))"

section \<open>A stand-in for the libraries\<close>

text \<open>
  The theorems below hold for every library that satisfies the stated laws.  To run the
  embedding on concrete inputs, \<open>stubLib\<close> gives each library function a small executable
  stand-in with the same shape: encodings are the identity, the derived key is the secret
  followed by the salt (and, as \<open>argon2\<close> does, a salt under 8 bytes is refused), the
  cipher text is the plain text behind a one-byte header, the MAC spells out key and
  message, and an object of string fields is serialised as its values between bars.
\<close>

definition stubLib :: lib where
  "stubLib = \<lparr>
     Buffer_toBase64 = (\<lambda>b. b),
     Buffer_fromBase64 = (\<lambda>s. s),
     argon2_hash = (\<lambda>sk saltBytes.
        if length saltBytes < 8 then Inl (Error ''Invalid salt length'') else Inr (sk @ saltBytes)),
     Base64_parse = (\<lambda>s. s),
     Base64_stringify = (\<lambda>b. b),
     AES_encrypt = (\<lambda>v key i. Inr (CHR ''#'' # v)),
     AES_decrypt = (\<lambda>c key i. case c of [] \<Rightarrow> Inl (Error ''Malformed UTF-8 data'') | x # v \<Rightarrow> Inr v),
     HmacSHA256 = (\<lambda>m key. CHR ''h'' # key @ m),
     JSON_parse = (\<lambda>s. case s of
          [] \<Rightarrow> Inl (SyntaxError ''Unexpected end of JSON input'')
        | x # r \<Rightarrow> (case split CHR ''|'' r of
            [a, b, c, d] \<Rightarrow> Inr (JObject [(''salt'', JString a), (''iv'', JString b),
                               (''cipherText'', JString c), (''mac'', JString d)])
          | [a, b, c] \<Rightarrow> Inr (JObject [(''salt'', JString a), (''iv'', JString b),
                               (''cipherText'', JString c)])
          | _ \<Rightarrow> Inl (SyntaxError ''Unexpected token''))),
     JSON_stringify = (\<lambda>j. CHR ''{'' # (case j of
          JObject [(k1, JString a), (k2, JString b), (k3, JString c), (k4, JString d)] \<Rightarrow>
            a @ ''|'' @ b @ ''|'' @ c @ ''|'' @ d
        | _ \<Rightarrow> [])),
     path_relative = (\<lambda>p. p),
     randomBytes_rangeMessage = (\<lambda>n. ''The value of size is out of range.'') \<rparr>"

definition stubConfig :: cryptoConfig where
  "stubConfig = \<lparr> IV_LENGTH = 2, SALT_LENGTH = 8, SECRET_KEY_LENGTH = 4 \<rparr>"

definition stubWorld :: world where
  "stubWorld = \<lparr> files = Map.empty, entropy = (\<lambda>n. if even n then CHR ''a'' else CHR ''b''),
     drawn = 0, logged = [], calls = [] \<rparr>"

definition stubHandler :: EnvFilesHandler where
  "stubHandler = \<lparr> envDirPath = ''envs'', envFilePath = ''envs/.env.uat'', secretKey = ''key'',
     baseEnvFilePath = ''envs/.env'' \<rparr>"

definition withFile :: "string \<Rightarrow> string \<Rightarrow> world \<Rightarrow> world" where
  "withFile path content w = w\<lparr>files := (files w)(path \<mapsto> content)\<rparr>"

section \<open>Notions used in the statements\<close>

text \<open>
  The second test of the loop of \<open>encryptLines\<close>, named: a line that is not blank and has no
  \<open>=\<close> is the one the loop reports and skips.
\<close>

definition malformedLine :: "string \<Rightarrow> bool" where
  "malformedLine line = (trim line \<noteq> [] \<and> \<not> includesChar (trim line) CHR ''='')"

text \<open>The diagnostics of the lines of a file, in order; the index is the 0-based position.\<close>

definition diagnostics :: "nat \<Rightarrow> string list \<Rightarrow> string list" where
  "diagnostics index lines =
     map (\<lambda>(i, line). handleInvalidFormatError i line)
       (filter (\<lambda>(i, line). malformedLine line) (zip [index ..< index + length lines] lines))"

section \<open>Running a computation; the record transform\<close>

lemma bind_Inr_iff:
  "bind m f w = (Inr b, w') \<longleftrightarrow> (\<exists>a w1. m w = (Inr a, w1) \<and> f a w1 = (Inr b, w'))"
  by (auto simp: bind_def split: prod.splits sum.splits)

lemma bind_ok: "m w = (Inr a, w1) \<Longrightarrow> bind m f w = f a w1"
  by (simp add: bind_def)

lemma ret_apply: "ret a w = (Inr a, w)"
  by (simp add: ret_def)

lemma throw_apply: "throw e w = (Inl e, w)"
  by (simp add: throw_def)

lemma logged_rethrow_Inr_iff:
  "logged_rethrow m c body w = (Inr a, w') \<longleftrightarrow> body w = (Inr a, w')"
  by (auto simp: logged_rethrow_def tryCatch_def bind_def throw_def logError_def logMessage_def logger_def
      split: prod.splits sum.splits)

lemma logged_rethrow_ok: "body w = (Inr a, w') \<Longrightarrow> logged_rethrow m c body w = (Inr a, w')"
  by (simp add: logged_rethrow_Inr_iff)

lemma logged_rethrow_fail:
  "body w = (Inl e, w') \<Longrightarrow>
   logged_rethrow m c body w =
     (Inl e, w'\<lparr>logged := logged w' @ [(LError, ''[Method: '' @ m @ ''] '' @ formatErrorMessage e (if c \<noteq> [] then c @ '': '' else []))]\<rparr>)"
  by (simp add: logged_rethrow_def tryCatch_def bind_def throw_def logError_def logMessage_def logger_def)

lemma logThrowError_apply:
  "logThrowError msg w = (Inl (Error msg), w\<lparr>logged := logged w @ [(LError, msg)]\<rparr>)"
  by (simp add: logThrowError_def bind_def logger_def throw_def)

lemma encrypt_Inr_D:
  assumes "encrypt L cfg v sk w = (Inr env, w1)"
  shows "0 < SALT_LENGTH cfg \<and> 0 < IV_LENGTH cfg
     \<and> salt env = Buffer_toBase64 L (map (entropy w) [drawn w ..< drawn w + nat (SALT_LENGTH cfg)])
     \<and> iv env = Buffer_toBase64 L (map (entropy w)
          [drawn w + nat (SALT_LENGTH cfg) ..< drawn w + nat (SALT_LENGTH cfg) + nat (IV_LENGTH cfg)])
     \<and> (\<exists>dk. argon2_hash L sk (Buffer_fromBase64 L (salt env)) = Inr dk
     \<and> AES_encrypt L v (Base64_parse L dk) (Base64_parse L (iv env)) = Inr (cipherText env)
     \<and> mac env = HmacSHA256 L (salt env @ '':'' @ iv env @ '':'' @ cipherText env) (Base64_stringify L (Base64_parse L dk)))"
  using assms
  by (auto simp add: encrypt_def logged_rethrow_Inr_iff bind_Inr_iff ret_apply generateSalt_def generateIvAsBase64_def
      deriveKeyWithArgon2_def encryptData_def generateMac_def called_def randomBytes_def throw_apply split: if_splits)

lemma called_apply: "called c r w = (r, w\<lparr>calls := calls w @ [c]\<rparr>)"
  by (simp add: called_def)

lemma validateParsedData_ok:
  "j \<noteq> JNull \<Longrightarrow> truthyProp j ''salt'' \<Longrightarrow> truthyProp j ''iv'' \<Longrightarrow> truthyProp j ''cipherText''
   \<Longrightarrow> truthyProp j ''mac'' \<Longrightarrow> validateParsedData j w = (Inr (), w)"
  by (simp add: validateParsedData_def logged_rethrow_ok ret_apply)

lemma parseEncryptedData_ok:
  "s \<noteq> [] \<Longrightarrow> JSON_parse L s = Inr j \<Longrightarrow> j \<noteq> JNull \<Longrightarrow> truthyProp j ''salt'' \<Longrightarrow> truthyProp j ''iv''
   \<Longrightarrow> truthyProp j ''cipherText'' \<Longrightarrow> truthyProp j ''mac'' \<Longrightarrow> parseEncryptedData L s w = (Inr j, w)"
  by (simp add: parseEncryptedData_def logged_rethrow_Inr_iff bind_Inr_iff ret_apply validateParsedData_ok)

lemma asEncryptionParams_toJson: "asEncryptionParams (toJson p) w = (Inr p, w)"
  by (simp add: asEncryptionParams_def toJson_def asString_def bind_def ret_def)

lemma truthyProp_toJson:
  "truthyProp (toJson p) ''salt'' = (salt p \<noteq> [])"
  "truthyProp (toJson p) ''iv'' = (iv p \<noteq> [])"
  "truthyProp (toJson p) ''cipherText'' = (cipherText p \<noteq> [])"
  "truthyProp (toJson p) ''mac'' = (mac p \<noteq> [])"
  by (simp_all add: truthyProp_def toJson_def)

lemma decrypt_valid_envelope:
  assumes "s \<noteq> []" "JSON_parse L s = Inr (toJson p)"
    "salt p \<noteq> []" "iv p \<noteq> []" "cipherText p \<noteq> []" "mac p \<noteq> []"
  shows "decrypt L s sk w =
     logged_rethrow ''decrypt'' ''Failed to decrypt with Argon2.''
       (bind (deriveKeyWithArgon2 L sk (salt p)) (\<lambda>key.
        bind (generateMac L (salt p) (iv p) (cipherText p) key) (\<lambda>computedMac.
        bind (verifyMac computedMac (mac p)) (\<lambda>_.
        bind (decryptData L (Base64_parse L (cipherText p)) key (Base64_parse L (iv p))) (\<lambda>decrypted.
        bind (if decrypted = [] then logThrowError ''Decryption failed. The result is empty or malformed.''
              else ret ()) (\<lambda>_.
        ret decrypted)))))) w"
proof -
  have "toJson p \<noteq> JNull"
    by (simp add: toJson_def)
  then have "parseEncryptedData L s w = (Inr (toJson p), w)"
    using assms by (intro parseEncryptedData_ok) (simp_all add: truthyProp_toJson)
  then show ?thesis
    by (simp add: decrypt_def bind_ok asEncryptionParams_toJson)
qed

lemma deriveKeyWithArgon2_ok:
  "argon2_hash L k (Buffer_fromBase64 L s) = Inr dk \<Longrightarrow>
   deriveKeyWithArgon2 L k s w = (Inr (Base64_parse L dk), w\<lparr>calls := calls w @ [Argon2Hash k s]\<rparr>)"
  by (simp add: deriveKeyWithArgon2_def logged_rethrow_Inr_iff bind_Inr_iff called_apply ret_apply)

lemma generateMac_apply:
  "generateMac L s i c key w =
     (Inr (HmacSHA256 L (s @ '':'' @ i @ '':'' @ c) (Base64_stringify L key)),
      w\<lparr>calls := calls w @ [HmacSha256 (s @ '':'' @ i @ '':'' @ c)]\<rparr>)"
  by (simp add: generateMac_def logged_rethrow_Inr_iff called_apply)

lemma verifyMac_ok: "verifyMac m m w = (Inr (), w)"
  by (simp add: verifyMac_def logged_rethrow_Inr_iff ret_apply)

lemma decryptData_ok:
  "AES_decrypt L c k i = Inr v \<Longrightarrow> decryptData L c k i w = (Inr v, w\<lparr>calls := calls w @ [AesDecrypt c]\<rparr>)"
  by (simp add: decryptData_def called_apply logged_rethrow_ok)

lemma fst_logged_rethrow: "fst (logged_rethrow m c body w) = fst (body w)"
  by (cases "body w" rule: prod.exhaust; cases "fst (body w)")
     (auto simp: logged_rethrow_fail logged_rethrow_ok)

lemma calls_logged_rethrow: "calls (snd (logged_rethrow m c body w)) = calls (snd (body w))"
  by (cases "body w" rule: prod.exhaust; cases "fst (body w)")
     (auto simp: logged_rethrow_fail logged_rethrow_ok)

lemma files_logged_rethrow: "files (snd (logged_rethrow m c body w)) = files (snd (body w))"
  by (cases "body w" rule: prod.exhaust; cases "fst (body w)")
     (auto simp: logged_rethrow_fail logged_rethrow_ok)

lemma verifyMac_fail:
  "c \<noteq> m \<Longrightarrow> verifyMac c m w =
     (Inl (Error ''MAC verification failed. The data may have been tampered with.''),
      w\<lparr>logged := logged w @ [(LError, ''MAC verification failed. The data may have been tampered with.''),
         (LError, ''[Method: verifyMac] Failed to verify MAC: Error: MAC verification failed. The data may have been tampered with.'')]\<rparr>)"
  by (simp add: verifyMac_def logged_rethrow_fail [OF logThrowError_apply] formatErrorMessage_def)

lemma decrypt_ok:
  assumes "s \<noteq> []" "JSON_parse L s = Inr (toJson p)"
    "salt p \<noteq> []" "iv p \<noteq> []" "cipherText p \<noteq> []" "mac p \<noteq> []"
    and "argon2_hash L sk (Buffer_fromBase64 L (salt p)) = Inr dk"
    and "HmacSHA256 L (salt p @ '':'' @ iv p @ '':'' @ cipherText p) (Base64_stringify L (Base64_parse L dk)) = mac p"
    and "AES_decrypt L (Base64_parse L (cipherText p)) (Base64_parse L dk) (Base64_parse L (iv p)) = Inr v"
  shows "fst (decrypt L s sk w) =
     (if v = [] then Inl (Error ''Decryption failed. The result is empty or malformed.'') else Inr v)"
  unfolding decrypt_valid_envelope [OF assms(1-6)] fst_logged_rethrow
  using assms(7-9)
  by (simp add: bind_def deriveKeyWithArgon2_ok generateMac_apply verifyMac_ok decryptData_ok ret_apply logThrowError_apply)

lemma bind_fst_fail: "fst (m w) = Inl e \<Longrightarrow> fst (bind m f w) = Inl e \<and> snd (bind m f w) = snd (m w)"
  by (cases "m w") (auto simp: bind_def)

lemma validateParsedData_fst:
  "fst (validateParsedData j w) =
     (if j = JNull then Inl (TypeError ''Cannot destructure property 'salt' of 'parsedData' as it is null.'')
      else if \<not> truthyProp j ''salt'' \<or> \<not> truthyProp j ''iv'' \<or> \<not> truthyProp j ''cipherText'' \<or> \<not> truthyProp j ''mac''
      then Inl (Error ''Missing required properties in parsed data.'')
      else Inr ())"
  unfolding validateParsedData_def fst_logged_rethrow
  by (simp add: throw_apply ret_apply logThrowError_apply)

lemma validateParsedData_calls: "calls (snd (validateParsedData j w)) = calls w"
  unfolding validateParsedData_def calls_logged_rethrow
  by (simp add: throw_apply ret_apply logThrowError_apply)

lemma fst_bind:
  "fst (bind m f w) = (case fst (m w) of Inl e \<Rightarrow> Inl e | Inr a \<Rightarrow> fst (f a (snd (m w))))"
  by (cases "m w" rule: prod.exhaust; cases "fst (m w)") (auto simp: bind_def)

lemma snd_bind:
  "snd (bind m f w) = (case fst (m w) of Inl e \<Rightarrow> snd (m w) | Inr a \<Rightarrow> snd (f a (snd (m w))))"
  by (cases "m w" rule: prod.exhaust; cases "fst (m w)") (auto simp: bind_def)

lemma parseEncryptedData_fst:
  "fst (parseEncryptedData L s w) =
     (if s = [] then Inl (Error ''Encrypted data is required.'')
      else case JSON_parse L s of
        Inl e \<Rightarrow> Inl e
      | Inr j \<Rightarrow>
         (if j = JNull then Inl (TypeError ''Cannot destructure property 'salt' of 'parsedData' as it is null.'')
          else if \<not> truthyProp j ''salt'' \<or> \<not> truthyProp j ''iv'' \<or> \<not> truthyProp j ''cipherText'' \<or> \<not> truthyProp j ''mac''
          then Inl (Error ''Missing required properties in parsed data.'')
          else Inr j))"
  unfolding parseEncryptedData_def fst_logged_rethrow
  by (cases "JSON_parse L s") (simp_all add: fst_bind snd_bind logThrowError_apply ret_apply validateParsedData_fst)

lemma parseEncryptedData_calls: "calls (snd (parseEncryptedData L s w)) = calls w"
  unfolding parseEncryptedData_def calls_logged_rethrow
  by (cases "JSON_parse L s")
     (simp_all add: fst_bind snd_bind logThrowError_apply ret_apply validateParsedData_calls split: sum.splits)

text \<open>
  Claim C9.  An input that is empty, that \<open>JSON.parse\<close> rejects, or whose parsed value lacks
  one of \<open>salt\<close>, \<open>iv\<close>, \<open>cipherText\<close>, \<open>mac\<close> (or holds a falsy value there) makes
  \<open>parseEncryptedData\<close> throw: the required-data error, the parser's own error, or the
  missing-properties error (a \<open>TypeError\<close> when the parsed value is \<open>null\<close>).  \<open>decrypt\<close>
  throws the same error, and has made no cryptographic library call by then: no key
  derivation, no MAC, no decryption.
\<close>

theorem C9_malformed_envelope_rejected:
  assumes "encryptedData = [] \<or> (\<exists>e. JSON_parse L encryptedData = Inl e)
     \<or> (\<exists>j. JSON_parse L encryptedData = Inr j \<and>
           (\<not> truthyProp j ''salt'' \<or> \<not> truthyProp j ''iv'' \<or> \<not> truthyProp j ''cipherText'' \<or> \<not> truthyProp j ''mac''))"
  shows "fst (parseEncryptedData L encryptedData w) =
       Inl (if encryptedData = [] then Error ''Encrypted data is required.''
            else case JSON_parse L encryptedData of
              Inl e \<Rightarrow> e
            | Inr j \<Rightarrow> if j = JNull
                then TypeError ''Cannot destructure property 'salt' of 'parsedData' as it is null.''
                else Error ''Missing required properties in parsed data.'')
     \<and> (\<exists>e. fst (parseEncryptedData L encryptedData w) = Inl e \<and> fst (decrypt L encryptedData sk w) = Inl e)
     \<and> calls (snd (decrypt L encryptedData sk w)) = calls w"
proof -
  let ?e = "if encryptedData = [] then Error ''Encrypted data is required.''
            else case JSON_parse L encryptedData of
              Inl e \<Rightarrow> e
            | Inr j \<Rightarrow> if j = JNull
                then TypeError ''Cannot destructure property 'salt' of 'parsedData' as it is null.''
                else Error ''Missing required properties in parsed data.''"
  have p: "fst (parseEncryptedData L encryptedData w) = Inl ?e"
    using assms unfolding parseEncryptedData_fst
    by (cases "JSON_parse L encryptedData") auto
  then have d: "fst (decrypt L encryptedData sk w) = Inl ?e
      \<and> snd (decrypt L encryptedData sk w) = snd (parseEncryptedData L encryptedData w)"
    unfolding decrypt_def by (rule bind_fst_fail)
  show ?thesis
    using p d parseEncryptedData_calls [of L encryptedData w] by simp
qed

theorem C9_malformed_envelope_rejected_witness:
  "JSON_parse stubLib ''{abababab|ab|#pw'' =
       Inr (JObject [(''salt'', JString ''abababab''), (''iv'', JString ''ab''), (''cipherText'', JString ''#pw'')])
   \<and> fst (parseEncryptedData stubLib ''{abababab|ab|#pw'' stubWorld) =
       Inl (Error ''Missing required properties in parsed data.'')
   \<and> fst (decrypt stubLib ''{abababab|ab|#pw'' ''key'' stubWorld) =
       Inl (Error ''Missing required properties in parsed data.'')
   \<and> calls (snd (decrypt stubLib ''{abababab|ab|#pw'' ''key'' stubWorld)) = []"
proof -
  have j: "JSON_parse stubLib ''{abababab|ab|#pw'' =
       Inr (JObject [(''salt'', JString ''abababab''), (''iv'', JString ''ab''), (''cipherText'', JString ''#pw'')])"
    by (simp add: stubLib_def)
  have m: "\<not> truthyProp (JObject [(''salt'', JString ''abababab''), (''iv'', JString ''ab''),
      (''cipherText'', JString ''#pw'')]) ''mac''"
    by (simp add: truthyProp_def)
  have c: "calls stubWorld = []"
    by (simp add: stubWorld_def)
  show ?thesis
    using C9_malformed_envelope_rejected [of "''{abababab|ab|#pw''" stubLib stubWorld "''key''"] j m c
    by auto
qed

lemma round_trip_general:
  assumes enc: "encrypt L cfg v sk w = (Inr env, w1)"
    and aes: "\<forall>key i c. AES_encrypt L v key i = Inr c \<longrightarrow> c \<noteq> [] \<and> AES_decrypt L (Base64_parse L c) key i = Inr v"
    and b64: "\<forall>b. b \<noteq> [] \<longrightarrow> Buffer_toBase64 L b \<noteq> []"
    and hmac: "\<forall>m key. HmacSHA256 L m key \<noteq> []"
    and json: "JSON_stringify L (toJson env) \<noteq> []" "JSON_parse L (JSON_stringify L (toJson env)) = Inr (toJson env)"
  shows "fst (decrypt L (JSON_stringify L (toJson env)) sk w2) =
     (if v = [] then Inl (Error ''Decryption failed. The result is empty or malformed.'') else Inr v)"
proof -
  from encrypt_Inr_D [OF enc] obtain dk where
    len: "0 < SALT_LENGTH cfg" "0 < IV_LENGTH cfg"
    and s: "salt env = Buffer_toBase64 L (map (entropy w) [drawn w ..< drawn w + nat (SALT_LENGTH cfg)])"
    and i: "iv env = Buffer_toBase64 L (map (entropy w)
          [drawn w + nat (SALT_LENGTH cfg) ..< drawn w + nat (SALT_LENGTH cfg) + nat (IV_LENGTH cfg)])"
    and k: "argon2_hash L sk (Buffer_fromBase64 L (salt env)) = Inr dk"
    and c: "AES_encrypt L v (Base64_parse L dk) (Base64_parse L (iv env)) = Inr (cipherText env)"
    and m: "mac env = HmacSHA256 L (salt env @ '':'' @ iv env @ '':'' @ cipherText env)
              (Base64_stringify L (Base64_parse L dk))"
    by blast
  have s_ne: "salt env \<noteq> []"
    using len(1) b64 unfolding s by simp
  have i_ne: "iv env \<noteq> []"
    using len(2) b64 unfolding i by simp
  have c_ne: "cipherText env \<noteq> []"
    and dec: "AES_decrypt L (Base64_parse L (cipherText env)) (Base64_parse L dk) (Base64_parse L (iv env)) = Inr v"
    using aes c by blast+
  have m_ne: "mac env \<noteq> []"
    using hmac unfolding m by simp
  show ?thesis
    by (rule decrypt_ok [OF json(1) json(2) s_ne i_ne c_ne m_ne k m [symmetric] dec])
qed

text \<open>
  Claim C1, amended.  Let \<open>encrypt\<close> succeed on a plain text \<open>v\<close> that is not empty, and let
  the libraries obey their laws: decrypting what AES encrypted gives the plain text back and
  the cipher text is not empty, base64 of a non-empty buffer and the MAC are not empty,
  and \<open>JSON.parse\<close> inverts \<open>JSON.stringify\<close> on this envelope.  Then \<open>decrypt\<close> of the
  serialised envelope under the same secret key returns \<open>v\<close>, in whatever world it runs.
\<close>

theorem C1_round_trip_nonempty:
  assumes "encrypt L cfg v sk w = (Inr env, w1)"
    and "v \<noteq> []"
    and "\<forall>key i c. AES_encrypt L v key i = Inr c \<longrightarrow> c \<noteq> [] \<and> AES_decrypt L (Base64_parse L c) key i = Inr v"
    and "\<forall>b. b \<noteq> [] \<longrightarrow> Buffer_toBase64 L b \<noteq> []"
    and "\<forall>m key. HmacSHA256 L m key \<noteq> []"
    and "JSON_stringify L (toJson env) \<noteq> []"
    and "JSON_parse L (JSON_stringify L (toJson env)) = Inr (toJson env)"
  shows "fst (decrypt L (JSON_stringify L (toJson env)) sk w2) = Inr v"
  using round_trip_general [OF assms(1) assms(3-7), of w2] assms(2) by simp

lemma stubLib_laws:
  "\<forall>key i c. AES_encrypt stubLib v key i = Inr c \<longrightarrow> c \<noteq> [] \<and> AES_decrypt stubLib (Base64_parse stubLib c) key i = Inr v"
  "\<forall>b. b \<noteq> [] \<longrightarrow> Buffer_toBase64 stubLib b \<noteq> []"
  "\<forall>m key. HmacSHA256 stubLib m key \<noteq> []"
  by (auto simp: stubLib_def)

lemma stub_encrypt_pw:
  "fst (encrypt stubLib stubConfig ''pw'' ''key'' stubWorld) =
     Inr \<lparr>salt = ''abababab'', iv = ''ab'', cipherText = ''#pw'', mac = ''hkeyabababababababab:ab:#pw''\<rparr>"
  by (simp add: encrypt_def stubLib_def stubConfig_def stubWorld_def fst_logged_rethrow bind_def generateSalt_def
      generateIvAsBase64_def randomBytes_def called_def ret_def logged_rethrow_ok deriveKeyWithArgon2_def
      encryptData_def generateMac_def upt_rec)

lemma stub_encrypt_empty:
  "fst (encrypt stubLib stubConfig '''' ''key'' stubWorld) =
     Inr \<lparr>salt = ''abababab'', iv = ''ab'', cipherText = ''#'', mac = ''hkeyabababababababab:ab:#''\<rparr>"
  by (simp add: encrypt_def stubLib_def stubConfig_def stubWorld_def fst_logged_rethrow bind_def generateSalt_def
      generateIvAsBase64_def randomBytes_def called_def ret_def logged_rethrow_ok deriveKeyWithArgon2_def
      encryptData_def generateMac_def upt_rec)

lemma stub_json:
  "JSON_stringify stubLib (toJson \<lparr>salt = ''abababab'', iv = ''ab'', cipherText = c, mac = m\<rparr>) =
     ''{abababab|ab|'' @ c @ ''|'' @ m"
  by (simp add: stubLib_def toJson_def)

lemma stub_parse_pw:
  "JSON_parse stubLib ''{abababab|ab|#pw|hkeyabababababababab:ab:#pw'' =
     Inr (toJson \<lparr>salt = ''abababab'', iv = ''ab'', cipherText = ''#pw'', mac = ''hkeyabababababababab:ab:#pw''\<rparr>)"
  by (simp add: stubLib_def toJson_def)

lemma stub_parse_empty:
  "JSON_parse stubLib ''{abababab|ab|#|hkeyabababababababab:ab:#'' =
     Inr (toJson \<lparr>salt = ''abababab'', iv = ''ab'', cipherText = ''#'', mac = ''hkeyabababababababab:ab:#''\<rparr>)"
  by (simp add: stubLib_def toJson_def)

text \<open>The theorem at the plain text \<open>pw\<close> under the secret \<open>key\<close>.\<close>

theorem C1_round_trip_nonempty_witness:
  "fst (encrypt stubLib stubConfig ''pw'' ''key'' stubWorld) =
     Inr \<lparr>salt = ''abababab'', iv = ''ab'', cipherText = ''#pw'', mac = ''hkeyabababababababab:ab:#pw''\<rparr>
   \<and> JSON_stringify stubLib
        (toJson \<lparr>salt = ''abababab'', iv = ''ab'', cipherText = ''#pw'', mac = ''hkeyabababababababab:ab:#pw''\<rparr>) =
      ''{abababab|ab|#pw|hkeyabababababababab:ab:#pw''
   \<and> fst (decrypt stubLib ''{abababab|ab|#pw|hkeyabababababababab:ab:#pw'' ''key'' stubWorld) = Inr ''pw''"
proof -
  let ?env = "\<lparr>salt = ''abababab'', iv = ''ab'', cipherText = ''#pw'', mac = ''hkeyabababababababab:ab:#pw''\<rparr>"
  have e: "encrypt stubLib stubConfig ''pw'' ''key'' stubWorld =
      (Inr ?env, snd (encrypt stubLib stubConfig ''pw'' ''key'' stubWorld))"
    using stub_encrypt_pw by (simp add: prod_eq_iff)
  have s: "JSON_stringify stubLib (toJson ?env) = ''{abababab|ab|#pw|hkeyabababababababab:ab:#pw''"
    by (simp add: stub_json)
  have ne: "JSON_stringify stubLib (toJson ?env) \<noteq> []"
    unfolding s by simp
  have p: "JSON_parse stubLib (JSON_stringify stubLib (toJson ?env)) = Inr (toJson ?env)"
    unfolding s by (rule stub_parse_pw)
  have "fst (decrypt stubLib (JSON_stringify stubLib (toJson ?env)) ''key'' stubWorld) = Inr ''pw''"
    by (rule C1_round_trip_nonempty [OF e _ stubLib_laws ne p]) simp
  then show ?thesis
    using stub_encrypt_pw s by simp
qed

text \<open>
  The claim as stated, for every plain text, fails at the empty one: \<open>encrypt\<close> succeeds,
  and \<open>decrypt\<close> of its envelope under the same key throws, because \<open>decrypt\<close> rejects an
  empty result.
\<close>

theorem C1_empty_plaintext_counterexample:
  "fst (encrypt stubLib stubConfig '''' ''key'' stubWorld) =
     Inr \<lparr>salt = ''abababab'', iv = ''ab'', cipherText = ''#'', mac = ''hkeyabababababababab:ab:#''\<rparr>
   \<and> JSON_stringify stubLib
        (toJson \<lparr>salt = ''abababab'', iv = ''ab'', cipherText = ''#'', mac = ''hkeyabababababababab:ab:#''\<rparr>) =
      ''{abababab|ab|#|hkeyabababababababab:ab:#''
   \<and> fst (decrypt stubLib ''{abababab|ab|#|hkeyabababababababab:ab:#'' ''key'' stubWorld) =
      Inl (Error ''Decryption failed. The result is empty or malformed.'')"
proof -
  let ?env = "\<lparr>salt = ''abababab'', iv = ''ab'', cipherText = ''#'', mac = ''hkeyabababababababab:ab:#''\<rparr>"
  have e: "encrypt stubLib stubConfig '''' ''key'' stubWorld =
      (Inr ?env, snd (encrypt stubLib stubConfig '''' ''key'' stubWorld))"
    using stub_encrypt_empty by (simp add: prod_eq_iff)
  have s: "JSON_stringify stubLib (toJson ?env) = ''{abababab|ab|#|hkeyabababababababab:ab:#''"
    by (simp add: stub_json)
  have ne: "JSON_stringify stubLib (toJson ?env) \<noteq> []"
    unfolding s by simp
  have p: "JSON_parse stubLib (JSON_stringify stubLib (toJson ?env)) = Inr (toJson ?env)"
    unfolding s by (rule stub_parse_empty)
  have "fst (decrypt stubLib (JSON_stringify stubLib (toJson ?env)) ''key'' stubWorld) =
      Inl (Error ''Decryption failed. The result is empty or malformed.'')"
    using round_trip_general [OF e stubLib_laws ne p, of stubWorld] by simp
  then show ?thesis
    using stub_encrypt_empty s by simp
qed

text \<open>
  Claim C2.  For a parsed envelope \<open>p\<close> with its four fields present, once the key is
  derived, \<open>decrypt\<close> computes the HMAC of \<open>salt:iv:cipherText\<close> under the derived key's
  base64 form; if it differs from the stored \<open>mac\<close> the call throws the integrity error
  and returns no plain text.  The library calls made are the key derivation and the HMAC,
  and nothing else: the cipher text is never decrypted.
\<close>

theorem C2_mac_mismatch_rejected:
  assumes "encryptedData \<noteq> []" "JSON_parse L encryptedData = Inr (toJson p)"
    and "salt p \<noteq> []" "iv p \<noteq> []" "cipherText p \<noteq> []" "mac p \<noteq> []"
    and "argon2_hash L sk (Buffer_fromBase64 L (salt p)) = Inr dk"
    and "HmacSHA256 L (salt p @ '':'' @ iv p @ '':'' @ cipherText p) (Base64_stringify L (Base64_parse L dk)) \<noteq> mac p"
  shows "fst (decrypt L encryptedData sk w) =
           Inl (Error ''MAC verification failed. The data may have been tampered with.'')
       \<and> calls (snd (decrypt L encryptedData sk w)) =
           calls w @ [Argon2Hash sk (salt p), HmacSha256 (salt p @ '':'' @ iv p @ '':'' @ cipherText p)]"
proof -
  have derived: "deriveKeyWithArgon2 L sk (salt p) w =
      (Inr (Base64_parse L dk), w\<lparr>calls := calls w @ [Argon2Hash sk (salt p)]\<rparr>)"
    using assms(7) by (rule deriveKeyWithArgon2_ok)
  show ?thesis
    unfolding decrypt_valid_envelope [OF assms(1-6)] fst_logged_rethrow calls_logged_rethrow
    using assms(8) by (simp add: bind_def derived generateMac_apply verifyMac_fail)
qed

text \<open>
  The theorem at an envelope that decrypts to \<open>pw\<close>, with one character changed first in
  its \<open>mac\<close> and then in its \<open>cipherText\<close>.
\<close>

theorem C2_mac_mismatch_rejected_witness:
  "fst (decrypt stubLib ''{abababab|ab|#pw|hkeyabababababababab:ab:#pw'' ''key'' stubWorld) = Inr ''pw''
   \<and> fst (decrypt stubLib ''{abababab|ab|#pw|hkeyabababababababab:ab:#pW'' ''key'' stubWorld) =
        Inl (Error ''MAC verification failed. The data may have been tampered with.'')
   \<and> calls (snd (decrypt stubLib ''{abababab|ab|#pw|hkeyabababababababab:ab:#pW'' ''key'' stubWorld)) =
        [Argon2Hash ''key'' ''abababab'', HmacSha256 ''abababab:ab:#pw'']
   \<and> fst (decrypt stubLib ''{abababab|ab|#pW|hkeyabababababababab:ab:#pw'' ''key'' stubWorld) =
        Inl (Error ''MAC verification failed. The data may have been tampered with.'')
   \<and> calls (snd (decrypt stubLib ''{abababab|ab|#pW|hkeyabababababababab:ab:#pw'' ''key'' stubWorld)) =
        [Argon2Hash ''key'' ''abababab'', HmacSha256 ''abababab:ab:#pW'']"
proof -
  let ?good = "\<lparr>salt = ''abababab'', iv = ''ab'', cipherText = ''#pw'', mac = ''hkeyabababababababab:ab:#pw''\<rparr>"
  let ?badMac = "\<lparr>salt = ''abababab'', iv = ''ab'', cipherText = ''#pw'', mac = ''hkeyabababababababab:ab:#pW''\<rparr>"
  let ?badCt = "\<lparr>salt = ''abababab'', iv = ''ab'', cipherText = ''#pW'', mac = ''hkeyabababababababab:ab:#pw''\<rparr>"
  have k: "argon2_hash stubLib ''key'' (Buffer_fromBase64 stubLib ''abababab'') = Inr ''keyabababab''"
    by (simp add: stubLib_def)
  have good: "fst (decrypt stubLib ''{abababab|ab|#pw|hkeyabababababababab:ab:#pw'' ''key'' stubWorld) =
      (if ''pw'' = [] then Inl (Error ''Decryption failed. The result is empty or malformed.'') else Inr ''pw'')"
    by (rule decrypt_ok [where p = ?good and dk = "''keyabababab''"]) (simp_all add: stubLib_def toJson_def)
  have m: "fst (decrypt stubLib ''{abababab|ab|#pw|hkeyabababababababab:ab:#pW'' ''key'' stubWorld) =
        Inl (Error ''MAC verification failed. The data may have been tampered with.'')
     \<and> calls (snd (decrypt stubLib ''{abababab|ab|#pw|hkeyabababababababab:ab:#pW'' ''key'' stubWorld)) =
        calls stubWorld @ [Argon2Hash ''key'' (salt ?badMac),
          HmacSha256 (salt ?badMac @ '':'' @ iv ?badMac @ '':'' @ cipherText ?badMac)]"
    by (rule C2_mac_mismatch_rejected [where p = ?badMac and dk = "''keyabababab''"])
       (simp_all add: stubLib_def toJson_def)
  have c: "fst (decrypt stubLib ''{abababab|ab|#pW|hkeyabababababababab:ab:#pw'' ''key'' stubWorld) =
        Inl (Error ''MAC verification failed. The data may have been tampered with.'')
     \<and> calls (snd (decrypt stubLib ''{abababab|ab|#pW|hkeyabababababababab:ab:#pw'' ''key'' stubWorld)) =
        calls stubWorld @ [Argon2Hash ''key'' (salt ?badCt),
          HmacSha256 (salt ?badCt @ '':'' @ iv ?badCt @ '':'' @ cipherText ?badCt)]"
    by (rule C2_mac_mismatch_rejected [where p = ?badCt and dk = "''keyabababab''"])
       (simp_all add: stubLib_def toJson_def)
  show ?thesis
    using good m c by (simp add: stubWorld_def)
qed

text \<open>
  Claim C5 does not hold of the code.  \<open>generateSecretKey\<close> has no guard on its length:
  at length \<open>0\<close> it calls \<open>crypto.randomBytes(0)\<close> and returns the base64 form of the empty
  buffer, where \<open>generateSalt\<close> and \<open>generateIvAsBase64\<close> throw before any library call.
\<close>

theorem C5_generateSecretKey_accepts_zero_length:
  "generateSecretKey L 0 w = (Inr (Buffer_toBase64 L []), w\<lparr>calls := calls w @ [RandomBytes 0]\<rparr>)
   \<and> generateSalt L 0 w = (Inl (Error ''Salt length must be greater than zero.''), w)
   \<and> generateIvAsBase64 L 0 w = (Inl (Error ''IV length must be greater than zero.''), w)"
  by (simp add: generateSecretKey_def generateSalt_def generateIvAsBase64_def logged_rethrow_Inr_iff bind_Inr_iff
      randomBytes_def called_apply ret_apply throw_apply)

section \<open>The file transform\<close>

lemma encrypt_Inr_world:
  assumes "encrypt L cfg v sk w = (Inr env, w1)"
  shows "logged w1 = logged w \<and> files w1 = files w"
  using assms
  by (auto simp add: encrypt_def logged_rethrow_Inr_iff bind_Inr_iff ret_apply generateSalt_def generateIvAsBase64_def
      deriveKeyWithArgon2_def encryptData_def generateMac_def called_def randomBytes_def throw_apply split: if_splits)

lemma diagnostics_Nil: "diagnostics index [] = []"
  by (simp add: diagnostics_def)

lemma diagnostics_Cons:
  "diagnostics index (line # lines) =
     (if malformedLine line then [handleInvalidFormatError index line] else []) @ diagnostics (Suc index) lines"
proof -
  have "[index ..< index + length (line # lines)] = index # [Suc index ..< Suc index + length lines]"
    by (subst upt_rec) simp
  then show ?thesis
    unfolding diagnostics_def by simp
qed

lemma encryptLoop_Inr:
  "encryptLoop L cfg sk lines index enc errs w = (Inr (out, errs'), w') \<Longrightarrow>
     errs' = errs @ diagnostics index lines
   \<and> (\<exists>new. out = enc @ new
        \<and> list_all2 (\<lambda>line emitted. (emitted = []) = (trim line = [])) (filter (\<lambda>l. \<not> malformedLine l) lines) new)
   \<and> logged w' = logged w @ map (Pair LError) (diagnostics index lines)
   \<and> files w' = files w"
proof (induction lines arbitrary: index enc errs w)
  case Nil
  then show ?case by (simp add: diagnostics_Nil)
next
  case (Cons line lines)
  show ?case
  proof (cases "trim line = []")
    case True
    with Cons.prems have "encryptLoop L cfg sk lines (Suc index) (enc @ [[]]) errs w = (Inr (out, errs'), w')"
      by simp
    from Cons.IH [OF this] True show ?thesis
      by (auto simp: diagnostics_Cons malformedLine_def)
  next
    case nonblank: False
    show ?thesis
    proof (cases "includesChar (trim line) CHR ''=''")
      case False
      with nonblank Cons.prems
      have "encryptLoop L cfg sk lines (Suc index) enc (errs @ [handleInvalidFormatError index line])
              (snd (logger LError (handleInvalidFormatError index line) w)) = (Inr (out, errs'), w')"
        by (simp add: Let_def)
      from Cons.IH [OF this] False nonblank show ?thesis
        by (auto simp: diagnostics_Cons malformedLine_def logger_def)
    next
      case True
      then have nm: "\<not> malformedLine line"
        by (simp add: malformedLine_def)
      have ne: "line \<noteq> []"
        using nonblank by (auto simp: trim_def)
      from True nonblank Cons.prems ne
      obtain e w1 where "encryptLoop L cfg sk lines (Suc index) (enc @ [e]) errs w1 = (Inr (out, errs'), w')"
        and "logged w1 = logged w" "files w1 = files w" "e \<noteq> []"
        by (auto simp: Let_def split: list.splits if_splits prod.splits sum.splits dest: encrypt_Inr_world)
      from Cons.IH [OF this(1)] this(2,3,4) nm nonblank show ?thesis
        by (auto simp: diagnostics_Cons)
    qed
  qed
qed

lemma encryptLoop_total:
  assumes "\<forall>v w0. \<exists>p w1. encrypt L cfg v sk w0 = (Inr p, w1)"
  shows "\<exists>out errs' w'. encryptLoop L cfg sk lines index enc errs w = (Inr (out, errs'), w')"
proof (induction lines arbitrary: index enc errs w)
  case Nil
  then show ?case by simp
next
  case step: (Cons line lines)
  show ?case
  proof (cases "split CHR ''='' (trim line)")
    case Nil
    then show ?thesis using step.IH by (simp add: Let_def)
  next
    case parts: (Cons key rest)
    show ?thesis
    proof (cases rest)
      case Nil
      then show ?thesis using parts step.IH by (simp add: Let_def)
    next
      case (Cons val others)
      obtain p w1 where "encrypt L cfg (trim val) sk w = (Inr p, w1)"
        using assms by blast
      then show ?thesis using parts Cons step.IH by (simp add: Let_def)
    qed
  qed
qed

lemma logError_apply:
  "logError e m c w =
     (Inr (), w\<lparr>logged := logged w @
        [(LError, ''[Method: '' @ m @ ''] '' @ formatErrorMessage e (if c \<noteq> [] then c @ '': '' else []))]\<rparr>)"
  by (simp add: logError_def logMessage_def logger_def)

lemma encryptLines_blank:
  assumes "list_all (\<lambda>line. trim line = []) lines"
  shows "fst (encryptLines L cfg sk lines w) = Inl (Error ''File is completely empty or contains only whitespace.'')"
    and "files (snd (encryptLines L cfg sk lines w)) = files w"
  using assms unfolding encryptLines_def fst_logged_rethrow files_logged_rethrow
  by (simp_all add: fst_bind snd_bind logThrowError_apply)

lemma encryptLines_loop:
  assumes "\<not> list_all (\<lambda>line. trim line = []) lines"
    and "encryptLoop L cfg sk lines 0 [] [] w = (Inr (out, errs), w1)"
  shows "encryptLines L cfg sk lines w =
     (Inr out, if errs \<noteq> []
        then w1\<lparr>logged := logged w1 @
          [(LError, ''[Method: encryptLines] Failed to encrypt some lines: Error: '' @ join [CHR 0x0A] errs)]\<rparr>
        else w1)"
  using assms unfolding encryptLines_def
  by (simp add: logged_rethrow_Inr_iff bind_Inr_iff ret_apply logError_apply formatErrorMessage_def)

lemma encryptLines_Inr_D:
  assumes "encryptLines L cfg sk lines w = (Inr out, w')"
  shows "\<not> list_all (\<lambda>line. trim line = []) lines"
    and "\<exists>errs w1. encryptLoop L cfg sk lines 0 [] [] w = (Inr (out, errs), w1)"
  using assms unfolding encryptLines_def
  by (auto simp add: logged_rethrow_Inr_iff bind_Inr_iff ret_apply logThrowError_apply split: if_splits)

lemma filter_take_nth:
  assumes "i < length xs" "P (xs ! i)"
  shows "length (filter P (take i xs)) < length (filter P xs)"
    and "filter P xs ! length (filter P (take i xs)) = xs ! i"
proof -
  have "xs = take i xs @ xs ! i # drop (Suc i) xs"
    using assms(1) by (simp add: id_take_nth_drop)
  then have f: "filter P xs = filter P (take i xs) @ xs ! i # filter P (drop (Suc i) xs)"
    using assms(2) by (metis filter.simps(2) filter_append)
  show "length (filter P (take i xs)) < length (filter P xs)"
    using arg_cong [OF f, of length] by simp
  show "filter P xs ! length (filter P (take i xs)) = xs ! i"
    using arg_cong [OF f, of "\<lambda>ys. ys ! length (filter P (take i xs))"] by (simp add: nth_append)
qed

text \<open>
  Claim C4, amended.  When the transform succeeds, a blank input line at index \<open>i\<close> has its
  output line at index \<open>i\<close> less the number of malformed lines before it (those are
  dropped, the others each emit one line, in order); that output line is blank, and it is
  the input line unchanged when the input line is empty.
\<close>

theorem C4_blank_line_kept_in_order:
  assumes "encryptLines L cfg sk lines w = (Inr out, w')"
    and "i < length lines"
    and "trim (lines ! i) = []"
  shows "i - length (filter malformedLine (take i lines)) < length out
     \<and> trim (out ! (i - length (filter malformedLine (take i lines)))) = []
     \<and> (lines ! i = [] \<longrightarrow> out ! (i - length (filter malformedLine (take i lines))) = lines ! i)"
proof -
  let ?P = "\<lambda>l. \<not> malformedLine l"
  let ?j = "length (filter ?P (take i lines))"
  have shifted: "i - length (filter malformedLine (take i lines)) = ?j"
    using sum_length_filter_compl [of malformedLine "take i lines"] assms(2) by simp
  obtain errs w1 where "encryptLoop L cfg sk lines 0 [] [] w = (Inr (out, errs), w1)"
    using encryptLines_Inr_D(2) [OF assms(1)] by blast
  from encryptLoop_Inr [OF this]
  have rel: "list_all2 (\<lambda>line emitted. (emitted = []) = (trim line = [])) (filter ?P lines) out"
    by simp
  have p: "?P (lines ! i)"
    using assms(3) by (simp add: malformedLine_def)
  have j: "?j < length (filter ?P lines)" and n: "filter ?P lines ! ?j = lines ! i"
    using filter_take_nth [of i lines ?P, OF assms(2) p] by simp_all
  have len: "length out = length (filter ?P lines)"
    using rel by (simp add: list_all2_lengthD)
  have "(out ! ?j = []) = (trim (filter ?P lines ! ?j) = [])"
    using list_all2_nthD [OF rel j] by simp
  then have "out ! ?j = []"
    using n assms(3) by simp
  then show ?thesis
    unfolding shifted using j len by (simp add: trim_def)
qed

lemma stub_encrypt_total:
  "\<forall>v w0. \<exists>p w1. encrypt stubLib stubConfig v ''key'' w0 = (Inr p, w1)"
  by (simp add: encrypt_def stubLib_def stubConfig_def logged_rethrow_Inr_iff bind_Inr_iff generateSalt_def
      generateIvAsBase64_def randomBytes_def called_def ret_def deriveKeyWithArgon2_def
      encryptData_def generateMac_def)

lemma length_diagnostics: "length (diagnostics index lines) = length (filter malformedLine lines)"
  by (induction lines arbitrary: index) (simp_all add: diagnostics_Nil diagnostics_Cons)

text \<open>
  Claim C7.  Let encryption itself not fail, and let the file have a line that is not
  blank.  Then the transform returns its output, with one line for each input line that is
  not malformed and none for a malformed one.  The log gains, in order, one entry for each
  malformed line, which carries its 1-based index and its raw content, and after those, if
  there was any, one entry that reports all of them joined by line feeds; nothing is
  thrown.
\<close>

theorem C7_malformed_lines_reported:
  assumes "\<forall>v w0. \<exists>p w1. encrypt L cfg v sk w0 = (Inr p, w1)"
    and "\<not> list_all (\<lambda>line. trim line = []) lines"
  shows "\<exists>out w'. encryptLines L cfg sk lines w = (Inr out, w')
     \<and> length out = length (filter (\<lambda>l. \<not> malformedLine l) lines)
     \<and> length (diagnostics 0 lines) = length (filter malformedLine lines)
     \<and> logged w' = logged w @ map (Pair LError) (diagnostics 0 lines)
          @ (if diagnostics 0 lines = [] then []
             else [(LError, ''[Method: encryptLines] Failed to encrypt some lines: Error: ''
                      @ join [CHR 0x0A] (diagnostics 0 lines))])"
proof -
  obtain out errs w1 where loop: "encryptLoop L cfg sk lines 0 [] [] w = (Inr (out, errs), w1)"
    using encryptLoop_total [OF assms(1)] by blast
  from encryptLoop_Inr [OF loop]
  have errs: "errs = diagnostics 0 lines"
    and rel: "list_all2 (\<lambda>line emitted. (emitted = []) = (trim line = [])) (filter (\<lambda>l. \<not> malformedLine l) lines) out"
    and lg: "logged w1 = logged w @ map (Pair LError) (diagnostics 0 lines)"
    by simp_all
  have len: "length out = length (filter (\<lambda>l. \<not> malformedLine l) lines)"
    using rel by (simp add: list_all2_lengthD)
  show ?thesis
    using encryptLines_loop [OF assms(2) loop] errs lg len length_diagnostics [of 0 lines]
    by (cases "diagnostics 0 lines = []") simp_all
qed

lemma encryptLoop_no_assignment:
  "list_all (\<lambda>line. trim line = [] \<or> \<not> includesChar (trim line) CHR ''='') lines \<Longrightarrow>
   \<exists>errs' w'. encryptLoop L cfg sk lines index enc errs w =
       (Inr (enc @ replicate (length (filter (\<lambda>line. trim line = []) lines)) [], errs'), w')
     \<and> files w' = files w"
proof (induction lines arbitrary: index enc errs w)
  case Nil
  then show ?case by simp
next
  case (Cons line lines)
  then have rest: "list_all (\<lambda>line. trim line = [] \<or> \<not> includesChar (trim line) CHR ''='') lines"
    by simp
  show ?case
  proof (cases "trim line = []")
    case True
    then show ?thesis
      using Cons.IH [OF rest, of "Suc index" "enc @ [[]]" errs w] by simp
  next
    case False
    with Cons.prems have "\<not> includesChar (trim line) CHR ''=''"
      by simp
    with False show ?thesis
      using Cons.IH [OF rest, of "Suc index" enc "errs @ [handleInvalidFormatError index line]"
          "snd (logger LError (handleInvalidFormatError index line) w)"]
      by (simp add: Let_def logger_def)
  qed
qed

lemma join_replicate_Nil: "n \<le> 1 \<Longrightarrow> join sep (replicate n []) = []"
  by (cases n) simp_all

lemma readEnvFileAsLines_ok:
  "files w (envFilePath h) = Some content \<Longrightarrow> readEnvFileAsLines h w = (Inr (split (CHR 0x0A) content), w)"
  by (simp add: readEnvFileAsLines_def logged_rethrow_Inr_iff bind_Inr_iff ret_apply readFileSync_def)

lemma writeEnvFileLines_empty:
  assumes "join [CHR 0x0A] lines = []"
  shows "fst (writeEnvFileLines h lines w) = Inl (Error ''No content provided for file: utf8'')"
    and "files (snd (writeEnvFileLines h lines w)) = files w"
  using assms unfolding writeEnvFileLines_def fst_logged_rethrow files_logged_rethrow
  by (simp_all add: writeFile_def fst_bind snd_bind logger_def throw_apply)

text \<open>
  Claim C6.  When the environment file exists and every one of its lines is blank,
  \<open>encryptEnvVariables\<close> throws the empty-file error, and the file store is as it was: the
  write step is not reached.
\<close>

theorem C6_blank_file_rejected:
  assumes "files w (envFilePath h) = Some content"
    and "list_all (\<lambda>line. trim line = []) (split (CHR 0x0A) content)"
  shows "fst (encryptEnvVariables L cfg h w) =
           Inl (Error ''File is completely empty or contains only whitespace.'')
     \<and> files (snd (encryptEnvVariables L cfg h w)) = files w"
  unfolding encryptEnvVariables_def fst_logged_rethrow files_logged_rethrow
  by (simp add: fst_bind snd_bind readEnvFileAsLines_ok [OF assms(1)] encryptLines_blank [OF assms(2)])

text \<open>
  Claim C10.  Let the environment file exist and have a line that is not blank, let every
  line that is not blank lack \<open>=\<close>, and let at most one line be blank.  Then the transform
  itself succeeds with no output character, \<open>writeFile\<close> refuses the empty content, and
  \<open>encryptEnvVariables\<close> throws that error with the file store as it was.
\<close>

theorem C10_empty_output_rejected_at_write:
  assumes "files w (envFilePath h) = Some content"
    and "\<not> list_all (\<lambda>line. trim line = []) (split (CHR 0x0A) content)"
    and "list_all (\<lambda>line. trim line = [] \<or> \<not> includesChar (trim line) CHR ''='') (split (CHR 0x0A) content)"
    and "length (filter (\<lambda>line. trim line = []) (split (CHR 0x0A) content)) \<le> 1"
  shows "fst (encryptEnvVariables L cfg h w) = Inl (Error ''No content provided for file: utf8'')
     \<and> files (snd (encryptEnvVariables L cfg h w)) = files w
     \<and> (\<exists>out w1. encryptLines L cfg (secretKey h) (split (CHR 0x0A) content) w = (Inr out, w1)
           \<and> join [CHR 0x0A] out = [])"
proof -
  let ?lines = "split (CHR 0x0A) content"
  let ?out = "replicate (length (filter (\<lambda>line. trim line = []) ?lines)) []"
  obtain errs w1 where loop: "encryptLoop L cfg (secretKey h) ?lines 0 [] [] w = (Inr (?out, errs), w1)"
    and f1: "files w1 = files w"
    using encryptLoop_no_assignment [OF assms(3), of L cfg "secretKey h" 0 "[]" "[]" w] by auto
  obtain w2 where lines: "encryptLines L cfg (secretKey h) ?lines w = (Inr ?out, w2)" and f2: "files w2 = files w"
    using encryptLines_loop [OF assms(2) loop] f1 by (cases "errs = []") simp_all
  have j: "join [CHR 0x0A] ?out = []"
    using assms(4) by (rule join_replicate_Nil)
  have "fst (encryptEnvVariables L cfg h w) = Inl (Error ''No content provided for file: utf8'')
     \<and> files (snd (encryptEnvVariables L cfg h w)) = files w"
    unfolding encryptEnvVariables_def fst_logged_rethrow files_logged_rethrow
    by (simp add: fst_bind snd_bind readEnvFileAsLines_ok [OF assms(1)] lines writeEnvFileLines_empty [OF j] f2)
  then show ?thesis
    using lines j by blast
qed

lemma join_nonempty: "x \<in> set xs \<Longrightarrow> x \<noteq> [] \<Longrightarrow> join sep xs \<noteq> []"
  by (induction sep xs rule: join.induct) auto

lemma writeEnvFileLines_ok:
  assumes "join [CHR 0x0A] lines \<noteq> []"
  shows "writeEnvFileLines h lines w =
     (Inr (), w\<lparr>files := (files w)(envFilePath h \<mapsto> join [CHR 0x0A] lines),
                logged := logged w @ [(LInfo, ''Successfully saved file: utf8'')]\<rparr>)"
  using assms
  by (simp add: writeEnvFileLines_def writeFile_def logged_rethrow_Inr_iff bind_Inr_iff writeFileSync_def logger_def)

lemma logEncryptionSuccess_apply:
  "\<exists>w'. logEncryptionSuccess L h m n w = (Inr (), w') \<and> files w' = files w"
  by (simp add: logEncryptionSuccess_def logged_rethrow_Inr_iff logger_def)

text \<open>
  The whole file operation with malformed lines in the file: as long as encryption does not
  fail and some line has an \<open>=\<close>, \<open>encryptEnvVariables\<close> returns normally and the file holds
  the lines that were not dropped, joined by line feeds.
\<close>

lemma encryptEnvVariables_partial_success:
  assumes total: "\<forall>v w0. \<exists>p w1. encrypt L cfg v (secretKey h) w0 = (Inr p, w1)"
    and present: "files w (envFilePath h) = Some content"
    and line: "line \<in> set (split (CHR 0x0A) content)" "includesChar (trim line) CHR ''=''"
  shows "\<exists>out w'. encryptEnvVariables L cfg h w = (Inr (), w')
     \<and> files w' = (files w)(envFilePath h \<mapsto> join [CHR 0x0A] out)
     \<and> length out = length (filter (\<lambda>l. \<not> malformedLine l) (split (CHR 0x0A) content))"
proof -
  let ?lines = "split (CHR 0x0A) content"
  let ?P = "\<lambda>l. \<not> malformedLine l"
  have nonblank: "trim line \<noteq> []"
    using line(2) by (auto simp: includesChar_def)
  then have nb: "\<not> list_all (\<lambda>line. trim line = []) ?lines"
    using line(1) by (auto simp: list_all_iff)
  obtain out errs w1 where loop: "encryptLoop L cfg (secretKey h) ?lines 0 [] [] w = (Inr (out, errs), w1)"
    using encryptLoop_total [OF total] by blast
  from encryptLoop_Inr [OF loop]
  have rel: "list_all2 (\<lambda>line emitted. (emitted = []) = (trim line = [])) (filter ?P ?lines) out"
    and f1: "files w1 = files w"
    by simp_all
  have len: "length out = length (filter ?P ?lines)"
    using rel by (simp add: list_all2_lengthD)
  have "line \<in> set (filter ?P ?lines)"
    using line by (simp add: malformedLine_def)
  then obtain k where k: "k < length (filter ?P ?lines)" "filter ?P ?lines ! k = line"
    unfolding in_set_conv_nth by blast
  have "out ! k \<noteq> []"
    using list_all2_nthD [OF rel k(1)] k(2) nonblank by simp
  moreover have "out ! k \<in> set out"
    using k(1) len by simp
  ultimately have j: "join [CHR 0x0A] out \<noteq> []"
    by (rule join_nonempty [rotated])
  obtain w2 where lines: "encryptLines L cfg (secretKey h) ?lines w = (Inr out, w2)" and f2: "files w2 = files w"
    using encryptLines_loop [OF nb loop] f1 by (cases "errs = []") simp_all
  let ?w3 = "w2\<lparr>files := (files w2)(envFilePath h \<mapsto> join [CHR 0x0A] out),
                logged := logged w2 @ [(LInfo, ''Successfully saved file: utf8'')]\<rparr>"
  obtain w4 where logged_ok: "logEncryptionSuccess L h (length ?lines) (length out) ?w3 = (Inr (), w4)"
    and f4: "files w4 = files ?w3"
    using logEncryptionSuccess_apply by blast
  have "encryptEnvVariables L cfg h w = (Inr (), w4)"
    unfolding encryptEnvVariables_def
    by (simp add: logged_rethrow_Inr_iff bind_Inr_iff readEnvFileAsLines_ok [OF present] lines
        writeEnvFileLines_ok [OF j] logged_ok)
  then show ?thesis
    using f4 f2 len by auto
qed

section \<open>The file transform on concrete files\<close>

lemmas stub_eval = encryptLines_def encrypt_def stubLib_def stubConfig_def stubWorld_def logged_rethrow_Inr_iff
  fst_logged_rethrow fst_bind snd_bind
  bind_def generateSalt_def generateIvAsBase64_def randomBytes_def called_def ret_def logged_rethrow_ok
  deriveKeyWithArgon2_def encryptData_def generateMac_def upt_rec trim_def isWhiteSpace_def includesChar_def
  Let_def logger_def handleInvalidFormatError_def logError_def logMessage_def formatErrorMessage_def toJson_def

text \<open>
  The theorem at the lines \<open>A=1\<close>, an empty line, \<open>B=2\<close> and \<open>badline\<close>: three output
  lines, one diagnostic for line 4, and the batch report.
\<close>

theorem C7_malformed_lines_reported_witness:
  "\<exists>out w'. encryptLines stubLib stubConfig ''key'' [''A=1'', '''', ''B=2'', ''badline''] stubWorld = (Inr out, w')
     \<and> length out = 3
     \<and> logged w' =
         [(LError, ''Line 4 doesn't contain any variables or has invalid format: badline''),
          (LError, ''[Method: encryptLines] Failed to encrypt some lines: Error: Line 4 doesn't contain any variables or has invalid format: badline'')]"
proof -
  have nb: "\<not> list_all (\<lambda>line. trim line = []) [''A=1'', '''', ''B=2'', ''badline'']"
    by (simp add: trim_def isWhiteSpace_def)
  have d: "diagnostics 0 [''A=1'', '''', ''B=2'', ''badline''] =
      [''Line 4 doesn't contain any variables or has invalid format: badline'']"
    by code_simp
  have n: "length (filter (\<lambda>l. \<not> malformedLine l) [''A=1'', '''', ''B=2'', ''badline'']) = 3"
    by code_simp
  show ?thesis
    using C7_malformed_lines_reported [OF stub_encrypt_total nb, of stubWorld]
    unfolding d n by (auto simp: stubWorld_def)
qed

text \<open>The theorem at the lines \<open>bad\<close>, an empty line and \<open>A=1\<close>, for the empty line.\<close>

theorem C4_blank_line_kept_in_order_witness:
  "fst (encryptLines stubLib stubConfig ''key'' [''bad'', '''', ''A=1''] stubWorld) =
       Inr ['''', ''A={abababab|ab|#1|hkeyabababababababab:ab:#1'']
   \<and> trim ([''bad'', '''', ''A=1''] ! 1) = []
   \<and> 1 - length (filter malformedLine (take 1 [''bad'', '''', ''A=1''])) = 0
   \<and> ['''', ''A={abababab|ab|#1|hkeyabababababababab:ab:#1''] ! 0 = [''bad'', '''', ''A=1''] ! 1"
proof -
  let ?lines = "[''bad'', '''', ''A=1'']"
  let ?out = "['''', ''A={abababab|ab|#1|hkeyabababababababab:ab:#1'']"
  have r: "fst (encryptLines stubLib stubConfig ''key'' ?lines stubWorld) = Inr ?out"
    by (simp add: stub_eval)
  then have e: "encryptLines stubLib stubConfig ''key'' ?lines stubWorld =
      (Inr ?out, snd (encryptLines stubLib stubConfig ''key'' ?lines stubWorld))"
    by (simp add: prod_eq_iff)
  have i: "1 < length ?lines"
    by simp
  have b: "trim (?lines ! 1) = []"
    by (simp add: trim_def)
  have j: "1 - length (filter malformedLine (take 1 ?lines)) = 0"
    by code_simp
  show ?thesis
    using C4_blank_line_kept_in_order [OF e i b] r b j by simp
qed

text \<open>
  The claim as stated fails at the lines \<open>bad\<close>, two spaces and \<open>A=1\<close>: the line at
  index 1 of the output is not the line of two spaces, and no output line is.
\<close>

theorem C4_blank_line_counterexample:
  "\<exists>out. fst (encryptLines stubLib stubConfig ''key'' [''bad'', ''  '', ''A=1''] stubWorld) = Inr out
     \<and> out = ['''', ''A={abababab|ab|#1|hkeyabababababababab:ab:#1'']
     \<and> out ! 1 \<noteq> ''  '' \<and> ''  '' \<notin> set out"
  by (simp add: stub_eval)

text \<open>
  Claim C3 does not hold of the code.  The line \<open>A=b=c\<close> is split at every \<open>=\<close> and the
  value is the second part only: what is encrypted is \<open>b\<close>, not \<open>b=c\<close>, and the emitted
  envelope decrypts to \<open>b\<close>.  The line \<open>A==b\<close>, whose value after the first \<open>=\<close> is \<open>=b\<close>, is
  not encrypted at all.
\<close>

theorem C3_value_cut_at_second_equals:
  "encryptLines stubLib stubConfig ''key'' [''A=b=c''] stubWorld =
       (Inr [''A='' @ ''{abababab|ab|#b|hkeyabababababababab:ab:#b''],
        stubWorld\<lparr>drawn := 10, calls := [RandomBytes 8, RandomBytes 2, Argon2Hash ''key'' ''abababab'',
          AesEncrypt ''b'', HmacSha256 ''abababab:ab:#b'']\<rparr>)
   \<and> fst (decrypt stubLib ''{abababab|ab|#b|hkeyabababababababab:ab:#b'' ''key'' stubWorld) = Inr ''b''
   \<and> fst (encryptLines stubLib stubConfig ''key'' [''A==b''] stubWorld) = Inr [''A==b'']"
proof -
  have d: "fst (decrypt stubLib ''{abababab|ab|#b|hkeyabababababababab:ab:#b'' ''key'' stubWorld) =
      (if ''b'' = [] then Inl (Error ''Decryption failed. The result is empty or malformed.'') else Inr ''b'')"
    by (rule decrypt_ok [where p = "\<lparr>salt = ''abababab'', iv = ''ab'', cipherText = ''#b'',
          mac = ''hkeyabababababababab:ab:#b''\<rparr>" and dk = "''keyabababab''"])
       (simp_all add: stubLib_def toJson_def)
  have e: "encryptLines stubLib stubConfig ''key'' [''A=b=c''] stubWorld =
       (Inr [''A='' @ ''{abababab|ab|#b|hkeyabababababababab:ab:#b''],
        stubWorld\<lparr>drawn := 10, calls := [RandomBytes 8, RandomBytes 2, Argon2Hash ''key'' ''abababab'',
          AesEncrypt ''b'', HmacSha256 ''abababab:ab:#b'']\<rparr>)"
    by (simp add: stub_eval)
  have n: "fst (encryptLines stubLib stubConfig ''key'' [''A==b''] stubWorld) = Inr [''A==b'']"
    by (simp add: stub_eval)
  show ?thesis
    using d e n by simp
qed

lemma split_lf_blank: "split (CHR 0x0A) [CHR '' '', CHR 0x0A, CHR 0x09, CHR 0x0A] = ['' '', [CHR 0x09], '''']"
  by simp

text \<open>The theorem at a file of three lines: a space, a tab, and the empty line after the last line feed.\<close>

theorem C6_blank_file_rejected_witness:
  "split (CHR 0x0A) [CHR '' '', CHR 0x0A, CHR 0x09, CHR 0x0A] = ['' '', [CHR 0x09], '''']
   \<and> fst (encryptEnvVariables stubLib stubConfig stubHandler
          (withFile ''envs/.env.uat'' [CHR '' '', CHR 0x0A, CHR 0x09, CHR 0x0A] stubWorld)) =
        Inl (Error ''File is completely empty or contains only whitespace.'')
   \<and> files (snd (encryptEnvVariables stubLib stubConfig stubHandler
          (withFile ''envs/.env.uat'' [CHR '' '', CHR 0x0A, CHR 0x09, CHR 0x0A] stubWorld))) ''envs/.env.uat'' =
        Some [CHR '' '', CHR 0x0A, CHR 0x09, CHR 0x0A]"
proof -
  let ?w = "withFile ''envs/.env.uat'' [CHR '' '', CHR 0x0A, CHR 0x09, CHR 0x0A] stubWorld"
  have f: "files ?w (envFilePath stubHandler) = Some [CHR '' '', CHR 0x0A, CHR 0x09, CHR 0x0A]"
    by (simp add: withFile_def stubHandler_def)
  have b: "list_all (\<lambda>line. trim line = []) (split (CHR 0x0A) [CHR '' '', CHR 0x0A, CHR 0x09, CHR 0x0A])"
    unfolding split_lf_blank by (simp add: trim_def isWhiteSpace_def)
  show ?thesis
    using C6_blank_file_rejected [OF f b, of stubLib stubConfig] split_lf_blank
    by (simp add: withFile_def)
qed

lemma split_lf_bad: "split (CHR 0x0A) (''# note'' @ [CHR 0x0A] @ ''badline'' @ [CHR 0x0A]) = [''# note'', ''badline'', '''']"
  by simp

text \<open>
  The theorem at a file of two lines without \<open>=\<close>, each ended by a line feed, so that the
  split leaves one empty line at the end.
\<close>

theorem C10_empty_output_rejected_at_write_witness:
  "split (CHR 0x0A) (''# note'' @ [CHR 0x0A] @ ''badline'' @ [CHR 0x0A]) = [''# note'', ''badline'', '''']
   \<and> fst (encryptEnvVariables stubLib stubConfig stubHandler
          (withFile ''envs/.env.uat'' (''# note'' @ [CHR 0x0A] @ ''badline'' @ [CHR 0x0A]) stubWorld)) =
        Inl (Error ''No content provided for file: utf8'')
   \<and> files (snd (encryptEnvVariables stubLib stubConfig stubHandler
          (withFile ''envs/.env.uat'' (''# note'' @ [CHR 0x0A] @ ''badline'' @ [CHR 0x0A]) stubWorld))) ''envs/.env.uat'' =
        Some (''# note'' @ [CHR 0x0A] @ ''badline'' @ [CHR 0x0A])"
proof -
  let ?c = "''# note'' @ [CHR 0x0A] @ ''badline'' @ [CHR 0x0A]"
  let ?w = "withFile ''envs/.env.uat'' ?c stubWorld"
  have f: "files ?w (envFilePath stubHandler) = Some ?c"
    by (simp add: withFile_def stubHandler_def)
  have nb: "\<not> list_all (\<lambda>line. trim line = []) (split (CHR 0x0A) ?c)"
    unfolding split_lf_bad by (simp add: trim_def isWhiteSpace_def)
  have m: "list_all (\<lambda>line. trim line = [] \<or> \<not> includesChar (trim line) CHR ''='') (split (CHR 0x0A) ?c)"
    unfolding split_lf_bad by (simp add: trim_def isWhiteSpace_def includesChar_def)
  have one: "length (filter (\<lambda>line. trim line = []) (split (CHR 0x0A) ?c)) \<le> 1"
    unfolding split_lf_bad by (simp add: trim_def isWhiteSpace_def)
  show ?thesis
    using C10_empty_output_rejected_at_write [OF f nb m one, of stubLib stubConfig] split_lf_bad
    by (simp add: withFile_def)
qed

section \<open>The key store\<close>

lemmas store_eval = storeBaseEnvKey_def getKeyValue_def readBaseEnvFile_def writeKeyToBaseEnvFile_def
  writeFile_def readFileSync_def writeFileSync_def withFile_def stubHandler_def stubWorld_def
  logged_rethrow_def tryCatch_def bind_def ret_def throw_def logger_def logError_def logMessage_def
  literalPattern_def isSyntaxCharacter_def isLineTerminator_def Let_def

text \<open>
  Claim C8 does not hold of the code.  On an empty base file, storing \<open>v1\<close> under \<open>K\<close> appends
  the line \<open>K=v1\<close>.  Storing the value \<open>$$\<close> under \<open>K\<close> next goes through
  \<open>String.prototype.replace\<close>, which reads \<open>$$\<close> in the replacement as one \<open>$\<close>: the file
  holds the line \<open>K=$\<close>, and \<open>getKeyValue\<close> returns \<open>$\<close>.  The same value stored under a
  key that is not in the file yet is appended as it is.
\<close>

theorem C8_replacement_pattern_in_value:
  "files (snd (storeBaseEnvKey stubHandler ''K'' ''v1'' (withFile ''envs/.env'' [] stubWorld))) ''envs/.env'' =
       Some (''K=v1'' @ [CHR 0x0A])
   \<and> files (snd (storeBaseEnvKey stubHandler ''K'' ''$$''
        (snd (storeBaseEnvKey stubHandler ''K'' ''v1'' (withFile ''envs/.env'' [] stubWorld))))) ''envs/.env'' =
       Some (''K=$'' @ [CHR 0x0A])
   \<and> fst (getKeyValue stubHandler ''K'' (snd (storeBaseEnvKey stubHandler ''K'' ''$$''
        (snd (storeBaseEnvKey stubHandler ''K'' ''v1'' (withFile ''envs/.env'' [] stubWorld)))))) =
       Inr (Some ''$'')
   \<and> files (snd (storeBaseEnvKey stubHandler ''K'' ''$$'' (withFile ''envs/.env'' [] stubWorld))) ''envs/.env'' =
       Some (''K=$$'' @ [CHR 0x0A])"
  by (simp add: store_eval)

text \<open>
  With values free of \<open>$\<close>, the two calls of the claim behave as it says on the empty file:
  one line \<open>K=v2\<close>, which \<open>getKeyValue\<close> reads back, and no value for a key that has no line.
\<close>

lemma store_upsert_plain_values:
  "files (snd (storeBaseEnvKey stubHandler ''K'' ''v2''
        (snd (storeBaseEnvKey stubHandler ''K'' ''v1'' (withFile ''envs/.env'' [] stubWorld))))) ''envs/.env'' =
       Some (''K=v2'' @ [CHR 0x0A])
   \<and> fst (getKeyValue stubHandler ''K'' (snd (storeBaseEnvKey stubHandler ''K'' ''v2''
        (snd (storeBaseEnvKey stubHandler ''K'' ''v1'' (withFile ''envs/.env'' [] stubWorld)))))) =
       Inr (Some ''v2'')
   \<and> fst (getKeyValue stubHandler ''MISSING'' (snd (storeBaseEnvKey stubHandler ''K'' ''v2''
        (snd (storeBaseEnvKey stubHandler ''K'' ''v1'' (withFile ''envs/.env'' [] stubWorld)))))) =
       Inr None"
  by (simp add: store_eval)

end
